theory Spec2Isabelle
  imports Main
begin

section \<open>Data model of \<^verbatim>\<open>torch/distributed/_shard/api.py\<close>\<close>

type_synonym process_group = nat

text \<open>
  A sharding specification is compared by value (\<^verbatim>\<open>!=\<close> on line 64). The source
  distinguishes one variant, \<^verbatim>\<open>ChunkShardingSpec\<close>, by \<^verbatim>\<open>isinstance\<close> and reads its
  \<^verbatim>\<open>dim\<close>; every other specification is opaque.
\<close>

datatype sharding_spec =
    ChunkShardingSpec int "string list"
  | OtherShardingSpec nat

text \<open>
  A dense tensor, as far as the source looks at it: its sizes, whether it is contiguous,
  and a tag standing for its contents.
\<close>

record tensor =
  shape :: "nat list"
  contiguous :: bool
  storage :: nat

record sharded_tensor =
  sharding_spec :: sharding_spec
  local_shard :: tensor

text \<open>
  The values an attribute or a module output can hold. A \<^verbatim>\<open>torch.nn.Parameter\<close> is an
  object with an identity (its address), which the \<^verbatim>\<open>memo\<close> set of \<^verbatim>\<open>shard_module\<close>
  compares.
\<close>

datatype pyval =
    Tensor tensor
  | Parameter nat tensor
  | ShardedTensor sharded_tensor
  | PartialTensor nat
  | NoneVal
  | Other string

datatype mismatch =
    SrcRankMismatch int nat int nat
  | SpecMismatch sharding_spec nat sharding_spec nat

text \<open>
  Every \<^verbatim>\<open>raise\<close> of the source is a constructor. Lines 49, 61, 65, 109, 113 and 116
  raise \<^verbatim>\<open>ValueError\<close> with different messages; the constructors carry what the message
  reports. \<open>NotFound\<close> is line 109, \<open>TypeMismatch\<close> line 113 (attribute name, expected
  kind, found kind), \<open>InvalidInput\<close> lines 49 (\<open>None\<close>) and 116 (the parameter name),
  \<open>InconsistentConfiguration\<close> lines 61 and 65 (local value, local rank, peer value,
  peer rank), \<open>ReentrancyError\<close> the \<^verbatim>\<open>RuntimeError\<close> of line 157. The others are raised by
  the collaborators: \<open>KeyError\<close> by a dictionary read, \<open>AttributeError\<close> and \<open>TypeError\<close> by
  the module's attribute protocol, \<open>IndexError\<close> by \<^verbatim>\<open>Tensor.size\<close>, \<open>SpecError\<close> by a
  specification's own \<^verbatim>\<open>shard\<close> or by \<^verbatim>\<open>reshard\<close>.
\<close>

datatype error =
    NotFound string
  | TypeMismatch string string string
  | InvalidInput "string option"
  | InconsistentConfiguration mismatch
  | ReentrancyError
  | KeyError string
  | AttributeError string
  | TypeError string
  | IndexError
  | SpecError nat

datatype hook = ReshardOutput sharding_spec | CollectLocalShard

record module_obj =
  parameters :: "(string \<times> (nat \<times> tensor) option) list"
  attributes :: "(string \<times> pyval) list"
  forward_hooks :: "hook list"

text \<open>
  The collaborators the source calls, taken as parameters: the default group, the rank
  and world-size queries, what the peers of a group hand to the n-th collective, and the
  partitioning done by a specification's \<^verbatim>\<open>shard\<close> and by \<^verbatim>\<open>reshard\<close> (either may raise).
\<close>

record dist_env =
  default_group :: process_group
  get_world_size :: "process_group \<Rightarrow> nat"
  get_rank :: "process_group \<Rightarrow> nat"
  peer_object :: "process_group \<Rightarrow> nat \<Rightarrow> nat \<Rightarrow> int \<times> sharding_spec"
  shard_local :: "sharding_spec \<Rightarrow> tensor \<Rightarrow> int \<Rightarrow> process_group option \<Rightarrow> error + tensor"
  reshard_local :: "pyval \<Rightarrow> sharding_spec \<Rightarrow> error + tensor"

text \<open>
  The state a run mutates: the module objects by address, the number of collectives this
  process has entered, and the log of the calls of a specification's \<^verbatim>\<open>shard\<close>.
\<close>

record py_state =
  heap :: "nat \<Rightarrow> module_obj"
  collectives :: nat
  shard_calls :: "(sharding_spec \<times> tensor \<times> int \<times> process_group option) list"

section \<open>The tensor-sharding operation (lines 19-71)\<close>

text \<open>
  Modelled from the spec: \<^verbatim>\<open>dist.all_gather_object\<close>, which is not in the source file.
  "Every cooperating process broadcasts its (source_rank, spec) pair to all others": slot
  \<open>i\<close> of the gathered list holds what rank \<open>i\<close> passed, the caller's own slot its own pair.
\<close>

definition all_gather_object ::
  "dist_env \<Rightarrow> process_group \<Rightarrow> nat \<Rightarrow> int \<times> sharding_spec \<Rightarrow> (int \<times> sharding_spec) list" where
  "all_gather_object env pg n obj =
     map (\<lambda>i. if i = get_rank env pg then obj else peer_object env pg n i)
       [0..<get_world_size env pg]"

text \<open>
  Modelled from the spec: \<^verbatim>\<open>ShardingSpec.shard\<close>, which is not in the source file. A
  sharded value "carries enough information to recover its own originating specification
  and to extract the portion of data owned by the current process".
\<close>

definition spec_shard ::
  "dist_env \<Rightarrow> sharding_spec \<Rightarrow> tensor \<Rightarrow> int \<Rightarrow> process_group option \<Rightarrow> error + sharded_tensor" where
  "spec_shard env spec t src_rank process_group =
     (case shard_local env spec t src_rank process_group of
        Inl e \<Rightarrow> Inl e
      | Inr l \<Rightarrow> Inr \<lparr>sharding_spec = spec, local_shard = l\<rparr>)"

text \<open>The loop of lines 59-67 over \<^verbatim>\<open>enumerate(gathered_list)\<close>.\<close>

fun check_gathered ::
  "int \<Rightarrow> sharding_spec \<Rightarrow> nat \<Rightarrow> nat \<Rightarrow> (int \<times> sharding_spec) list \<Rightarrow> error option" where
  "check_gathered src_rank spec current_rank idx [] = None"
| "check_gathered src_rank spec current_rank idx (entry # rest) =
     (if src_rank \<noteq> fst entry then
        Some (InconsistentConfiguration (SrcRankMismatch src_rank current_rank (fst entry) idx))
      else if spec \<noteq> snd entry then
        Some (InconsistentConfiguration (SpecMismatch spec current_rank (snd entry) idx))
      else check_gathered src_rank spec current_rank (Suc idx) rest)"

text \<open>\<^verbatim>\<open>_shard_tensor\<close> (an identifier cannot start with an underscore here).\<close>

definition shard_tensor ::
  "dist_env \<Rightarrow> tensor \<Rightarrow> sharding_spec \<Rightarrow> int \<Rightarrow> process_group option \<Rightarrow> py_state
     \<Rightarrow> (error + sharded_tensor) \<times> py_state" where
  "shard_tensor env t spec src_rank process_group st =
     (if \<not> contiguous t then (Inl (InvalidInput None), st)
      else
        let pg = (case process_group of Some g \<Rightarrow> g | None \<Rightarrow> default_group env);
            current_rank = get_rank env pg;
            gathered_list = all_gather_object env pg (collectives st) (src_rank, spec);
            st1 = st\<lparr>collectives := Suc (collectives st)\<rparr>
        in case check_gathered src_rank spec current_rank 0 gathered_list of
             Some e \<Rightarrow> (Inl e, st1)
           | None \<Rightarrow>
               (spec_shard env spec t src_rank process_group,
                st1\<lparr>shard_calls := shard_calls st1 @ [(spec, t, src_rank, process_group)]\<rparr>))"

section \<open>The parameter replacement operation (lines 73-128)\<close>

text \<open>
  Modelled from the spec: the attribute protocol of \<^verbatim>\<open>torch.nn.Module\<close> ("attribute
  get/has/delete/set by name"), which is not in the source file. A module owns a table of
  parameter attributes and its other attributes; a lookup reads the other attributes
  first. A value that is not a parameter "cannot simply overwrite" an entry of the
  parameter table "under the host's attribute-typing rules"; set on a name outside the
  table, it becomes a plain attribute.
\<close>

definition hasattr :: "module_obj \<Rightarrow> string \<Rightarrow> bool" where
  "hasattr m name \<longleftrightarrow> name \<in> fst ` set (attributes m) \<or> name \<in> fst ` set (parameters m)"

definition param_value :: "(nat \<times> tensor) option \<Rightarrow> pyval" where
  "param_value v = (case v of None \<Rightarrow> NoneVal | Some (a, t) \<Rightarrow> Parameter a t)"

definition getattr :: "module_obj \<Rightarrow> string \<Rightarrow> error + pyval" where
  "getattr m name =
     (case map_of (attributes m) name of
        Some v \<Rightarrow> Inr v
      | None \<Rightarrow>
          (case map_of (parameters m) name of
             Some v \<Rightarrow> Inr (param_value v)
           | None \<Rightarrow> Inl (AttributeError name)))"

definition remove_key :: "'k \<Rightarrow> ('k \<times> 'v) list \<Rightarrow> ('k \<times> 'v) list" where
  "remove_key k xs = filter (\<lambda>p. fst p \<noteq> k) xs"

fun set_key :: "'k \<Rightarrow> 'v \<Rightarrow> ('k \<times> 'v) list \<Rightarrow> ('k \<times> 'v) list" where
  "set_key k v [] = [(k, v)]"
| "set_key k v (p # ps) = (if fst p = k then (k, v) # ps else p # set_key k v ps)"

definition delattr :: "module_obj \<Rightarrow> string \<Rightarrow> error + module_obj" where
  "delattr m name =
     (if name \<in> fst ` set (parameters m) then
        Inr (m\<lparr>parameters := remove_key name (parameters m)\<rparr>)
      else if name \<in> fst ` set (attributes m) then
        Inr (m\<lparr>attributes := remove_key name (attributes m)\<rparr>)
      else Inl (AttributeError name))"

definition setattr :: "module_obj \<Rightarrow> string \<Rightarrow> pyval \<Rightarrow> error + module_obj" where
  "setattr m name v =
     (case v of
        Parameter a t \<Rightarrow>
          Inr (m\<lparr>parameters := set_key name (Some (a, t)) (parameters m),
                 attributes := remove_key name (attributes m)\<rparr>)
      | _ \<Rightarrow>
          if name \<in> fst ` set (parameters m) then
            (if v = NoneVal then Inr (m\<lparr>parameters := set_key name None (parameters m)\<rparr>)
             else Inl (TypeError name))
          else Inr (m\<lparr>attributes := set_key name v (attributes m)\<rparr>))"

text \<open>\<^verbatim>\<open>isinstance(tensor, torch.Tensor)\<close> and \<^verbatim>\<open>type(tensor).__name__\<close>.\<close>

fun as_tensor :: "pyval \<Rightarrow> tensor option" where
  "as_tensor (Tensor t) = Some t"
| "as_tensor (Parameter a t) = Some t"
| "as_tensor _ = None"

fun type_name :: "pyval \<Rightarrow> string" where
  "type_name (Tensor t) = ''Tensor''"
| "type_name (Parameter a t) = ''Parameter''"
| "type_name (ShardedTensor s) = ''ShardedTensor''"
| "type_name (PartialTensor p) = ''_PartialTensor''"
| "type_name NoneVal = ''NoneType''"
| "type_name (Other n) = n"

definition shard_parameter ::
  "dist_env \<Rightarrow> nat \<Rightarrow> string \<Rightarrow> sharding_spec \<Rightarrow> int \<Rightarrow> process_group option \<Rightarrow> py_state
     \<Rightarrow> (error + unit) \<times> py_state" where
  "shard_parameter env module param_name spec src_rank process_group st =
     (if \<not> hasattr (heap st module) param_name then (Inl (NotFound param_name), st)
      else
        case getattr (heap st module) param_name of
          Inl e \<Rightarrow> (Inl e, st)
        | Inr v \<Rightarrow>
            (case as_tensor v of
               None \<Rightarrow> (Inl (TypeMismatch param_name ''Tensor'' (type_name v)), st)
             | Some t \<Rightarrow>
                 if \<not> contiguous t then (Inl (InvalidInput (Some param_name)), st)
                 else
                   (case shard_tensor env t spec src_rank process_group st of
                      (Inl e, st1) \<Rightarrow> (Inl e, st1)
                    | (Inr sh, st1) \<Rightarrow>
                        (case delattr (heap st1 module) param_name of
                           Inl e \<Rightarrow> (Inl e, st1)
                         | Inr m1 \<Rightarrow>
                             let st2 = st1\<lparr>heap := fun_upd (heap st1) module m1\<rparr>
                             in case setattr (heap st2 module) param_name (ShardedTensor sh) of
                                  Inl e \<Rightarrow> (Inl e, st2)
                                | Inr m2 \<Rightarrow>
                                    (Inr (), st2\<lparr>heap := fun_upd (heap st2) module m2\<rparr>)))))"

section \<open>The process-group scoping context (lines 147-175)\<close>

text \<open>
  The global \<^verbatim>\<open>_CURRENT_PROCESS_GROUP\<close> is threaded as a value of type
  \<open>process_group option\<close> (\<open>None\<close> is Python's \<^verbatim>\<open>None\<close>). The body of the \<^verbatim>\<open>with\<close>
  statement is any computation on that global that returns or raises; it receives the
  yielded group. The \<^verbatim>\<open>finally\<close> clause runs on both exits.
\<close>

definition load_with_process_group ::
  "process_group option
     \<Rightarrow> (process_group option \<Rightarrow> process_group option \<Rightarrow> (error + 'a) \<times> process_group option)
     \<Rightarrow> process_group option \<Rightarrow> (error + 'a) \<times> process_group option" where
  "load_with_process_group process_group body current =
     (if current \<noteq> None then (Inl ReentrancyError, current)
      else
        let current1 = process_group;
            (r, current2) = body process_group current1
        in (r, None))"

definition get_current_process_group :: "dist_env \<Rightarrow> process_group option \<Rightarrow> process_group" where
  "get_current_process_group env current =
     (case current of None \<Rightarrow> default_group env | Some g \<Rightarrow> g)"

section \<open>The output hooks (lines 177-228)\<close>

text \<open>
  Modelled from the spec: \<^verbatim>\<open>reshard\<close> of a sharded or partial value, which is not in the
  source file: "the result of resharding it to a target specification".
\<close>

definition reshard :: "dist_env \<Rightarrow> pyval \<Rightarrow> sharding_spec \<Rightarrow> error + pyval" where
  "reshard env v resharding_spec =
     (case reshard_local env v resharding_spec of
        Inl e \<Rightarrow> Inl e
      | Inr l \<Rightarrow> Inr (ShardedTensor \<lparr>sharding_spec = resharding_spec, local_shard = l\<rparr>))"

text \<open>
  Modelled from the spec: \<^verbatim>\<open>Tensor.size(dim)\<close> and \<^verbatim>\<open>Tensor.squeeze(dim)\<close>, which are not in
  the source file: "the local shard's extent along the split dimension" and "remove that
  now-degenerate dimension". A negative dimension counts from the end, a dimension the
  tensor does not have raises.
\<close>

definition tensor_size :: "tensor \<Rightarrow> int \<Rightarrow> error + nat" where
  "tensor_size t d =
     (let n = int (length (shape t)); j = (if d < 0 then d + n else d)
      in if 0 \<le> j \<and> j < n then Inr (shape t ! nat j) else Inl IndexError)"

definition squeeze :: "tensor \<Rightarrow> int \<Rightarrow> error + tensor" where
  "squeeze t d =
     (let n = int (length (shape t)); j = (if d < 0 then d + n else d)
      in if 0 \<le> j \<and> j < n then
           Inr (if shape t ! nat j = 1
                then t\<lparr>shape := take (nat j) (shape t) @ drop (Suc (nat j)) (shape t)\<rparr>
                else t)
         else Inl IndexError)"

text \<open>\<^verbatim>\<open>hook_func\<close> of \<^verbatim>\<open>_reshard_output\<close> (lines 192-195).\<close>

definition reshard_hook_func :: "dist_env \<Rightarrow> sharding_spec \<Rightarrow> pyval \<Rightarrow> error + pyval" where
  "reshard_hook_func env resharding_spec output =
     (case output of
        ShardedTensor s \<Rightarrow> reshard env output resharding_spec
      | PartialTensor p \<Rightarrow> reshard env output resharding_spec
      | _ \<Rightarrow> Inr output)"

text \<open>
  \<^verbatim>\<open>hook_func\<close> of \<^verbatim>\<open>_collect_local_shard\<close> (lines 216-226). Falling off the end of the
  function returns \<^verbatim>\<open>None\<close>.
\<close>

definition collect_hook_func :: "pyval \<Rightarrow> error + pyval" where
  "collect_hook_func output =
     (case output of
        ShardedTensor s \<Rightarrow>
          (let local_tensor = local_shard s
           in case sharding_spec s of
                ChunkShardingSpec d ps \<Rightarrow>
                  (case tensor_size local_tensor d of
                     Inl e \<Rightarrow> Inl e
                   | Inr n \<Rightarrow>
                       if n = 1 then
                         (case squeeze local_tensor d of
                            Inl e \<Rightarrow> Inl e
                          | Inr t \<Rightarrow> Inr (Tensor t))
                       else Inr (Tensor local_tensor))
              | OtherShardingSpec k \<Rightarrow> Inr (Tensor local_tensor))
      | _ \<Rightarrow> Inr NoneVal)"

text \<open>\<^verbatim>\<open>module.register_forward_hook(hook_func)\<close>: the hook joins the module's hooks, last.\<close>

definition register_forward_hook :: "nat \<Rightarrow> hook \<Rightarrow> py_state \<Rightarrow> py_state" where
  "register_forward_hook module h st =
     st\<lparr>heap := fun_upd (heap st) module
        ((heap st module)\<lparr>forward_hooks := forward_hooks (heap st module) @ [h]\<rparr>)\<rparr>"

definition reshard_output :: "nat \<Rightarrow> sharding_spec \<Rightarrow> py_state \<Rightarrow> py_state" where
  "reshard_output module resharding_spec st =
     register_forward_hook module (ReshardOutput resharding_spec) st"

definition collect_local_shard :: "nat \<Rightarrow> py_state \<Rightarrow> py_state" where
  "collect_local_shard module st = register_forward_hook module CollectLocalShard st"

fun call_hook :: "dist_env \<Rightarrow> hook \<Rightarrow> pyval \<Rightarrow> error + pyval" where
  "call_hook env (ReshardOutput resharding_spec) output = reshard_hook_func env resharding_spec output"
| "call_hook env CollectLocalShard output = collect_hook_func output"

text \<open>
  Modelled from the spec: the host's call of the hooks after a forward computation, which
  is not in the source file. The hooks run in "registration order", each on the current
  output; a hook that returns nothing "contributes nothing, letting the original output
  stand".
\<close>

fun run_forward_hooks :: "dist_env \<Rightarrow> hook list \<Rightarrow> pyval \<Rightarrow> error + pyval" where
  "run_forward_hooks env [] result = Inr result"
| "run_forward_hooks env (h # hs) result =
     (case call_hook env h result of
        Inl e \<Rightarrow> Inl e
      | Inr hook_result \<Rightarrow>
          run_forward_hooks env hs (if hook_result \<noteq> NoneVal then hook_result else result))"

section \<open>The plan application engine (lines 230-287)\<close>

record sharding_plan =
  plan :: "string \<rightharpoonup> sharding_spec"
  output_plan :: "(string \<rightharpoonup> sharding_spec) option"
  return_local_tensor :: "string list option"

text \<open>The shape of a module tree: the address of a module object and its named children.\<close>

datatype module_tree = Module nat "(string \<times> module_tree) list"

text \<open>\<^verbatim>\<open>mod_prefix + ('.' if mod_prefix else '') + k\<close> (line 268).\<close>

definition qualified_name :: "string \<Rightarrow> string \<Rightarrow> string" where
  "qualified_name mod_prefix k = mod_prefix @ (if mod_prefix \<noteq> [] then ''.'' else []) @ k"

text \<open>
  Modelled from the spec: \<^verbatim>\<open>Module.named_modules\<close>, which is not in the source file: "a
  depth-first traversal of the module tree, visiting every sub-module together with its
  fully-qualified dotted path", in "pre-order, parent before children, children in their
  declared order".
\<close>

fun named_modules :: "string \<Rightarrow> module_tree \<Rightarrow> (string \<times> nat) list" where
  "named_modules prefix (Module a children) =
     (prefix, a) #
     concat (map (\<lambda>c. named_modules (qualified_name prefix (fst c)) (snd c)) children)"

text \<open>
  The loop of lines 266-279 over the keys of one module, \<open>md\<close> (\<^verbatim>\<open>mod\<close> in the source),
  with its \<^verbatim>\<open>memo\<close> set of the parameter objects seen (a set of addresses: a tensor
  hashes by identity).
\<close>

fun shard_parameters ::
  "dist_env \<Rightarrow> sharding_plan \<Rightarrow> int \<Rightarrow> process_group option \<Rightarrow> string \<Rightarrow> nat \<Rightarrow> string list
     \<Rightarrow> nat set \<Rightarrow> py_state \<Rightarrow> (error + unit) \<times> py_state" where
  "shard_parameters env pl src_rank process_group mod_prefix md [] memo st = (Inr (), st)"
| "shard_parameters env pl src_rank process_group mod_prefix md (k # ks) memo st =
     (case map_of (parameters (heap st md)) k of
        None \<Rightarrow> (Inl (KeyError k), st)
      | Some v \<Rightarrow>
          let name = qualified_name mod_prefix k
          in case v of
               None \<Rightarrow> shard_parameters env pl src_rank process_group mod_prefix md ks memo st
             | Some (a, t) \<Rightarrow>
                 if a \<in> memo then
                   shard_parameters env pl src_rank process_group mod_prefix md ks memo st
                 else
                   (case plan pl name of
                      Some spec \<Rightarrow>
                        (case shard_parameter env md k spec src_rank process_group st of
                           (Inl e, st1) \<Rightarrow> (Inl e, st1)
                         | (Inr u, st1) \<Rightarrow>
                             shard_parameters env pl src_rank process_group mod_prefix md ks
                               (insert a memo) st1)
                    | None \<Rightarrow>
                        shard_parameters env pl src_rank process_group mod_prefix md ks
                          (insert a memo) st))"

text \<open>Lines 281-287: the hooks of one module.\<close>

definition install_hooks :: "sharding_plan \<Rightarrow> string \<Rightarrow> nat \<Rightarrow> py_state \<Rightarrow> py_state" where
  "install_hooks pl mod_prefix md st =
     (let st1 = (case output_plan pl of
                   None \<Rightarrow> st
                 | Some op \<Rightarrow>
                     (case op mod_prefix of
                        None \<Rightarrow> st
                      | Some resharding_spec \<Rightarrow> reshard_output md resharding_spec st))
      in case return_local_tensor pl of
           None \<Rightarrow> st1
         | Some names \<Rightarrow> if mod_prefix \<in> set names then collect_local_shard md st1 else st1)"

text \<open>The loop of line 259 over the modules; \<^verbatim>\<open>memo\<close> starts empty at each module (line 263).\<close>

fun shard_modules ::
  "dist_env \<Rightarrow> sharding_plan \<Rightarrow> int \<Rightarrow> process_group option \<Rightarrow> (string \<times> nat) list \<Rightarrow> py_state
     \<Rightarrow> (error + unit) \<times> py_state" where
  "shard_modules env pl src_rank process_group [] st = (Inr (), st)"
| "shard_modules env pl src_rank process_group ((mod_prefix, md) # rest) st =
     (let param_keys = map fst (parameters (heap st md))
      in case shard_parameters env pl src_rank process_group mod_prefix md param_keys {} st of
           (Inl e, st1) \<Rightarrow> (Inl e, st1)
         | (Inr u, st1) \<Rightarrow>
             shard_modules env pl src_rank process_group rest (install_hooks pl mod_prefix md st1))"

definition shard_module ::
  "dist_env \<Rightarrow> module_tree \<Rightarrow> sharding_plan \<Rightarrow> int \<Rightarrow> process_group option \<Rightarrow> py_state
     \<Rightarrow> (error + unit) \<times> py_state" where
  "shard_module env module pl src_rank process_group st =
     shard_modules env pl src_rank process_group (named_modules [] module) st"

section \<open>Notions used in the statements\<close>

text \<open>The addresses of the parameter objects that a parameter table holds.\<close>

fun param_ids :: "(string \<times> (nat \<times> tensor) option) list \<Rightarrow> nat set" where
  "param_ids [] = {}"
| "param_ids ((k, None) # ps) = param_ids ps"
| "param_ids ((k, Some (a, t)) # ps) = insert a (param_ids ps)"

section \<open>Example inputs\<close>

text \<open>
  A group of two processes seen from rank 0. The peers pass \<open>peers\<close> to every collective;
  a chunk specification hands back a local shard, any other specification raises (as
  the docstrings warn, only \<^verbatim>\<open>ChunkShardingSpec\<close> is supported). Resharding a sharded
  value hands back a new local shard, with the sizes in the other order.
\<close>

definition example_env :: "(int \<times> sharding_spec) list \<Rightarrow> dist_env" where
  "example_env peers =
     \<lparr>default_group = 0,
      get_world_size = (\<lambda>g. length peers),
      get_rank = (\<lambda>g. 0),
      peer_object = (\<lambda>g n i. peers ! i),
      shard_local = (\<lambda>spec t r g.
         case spec of
           ChunkShardingSpec d ps \<Rightarrow> Inr (t\<lparr>storage := Suc (storage t)\<rparr>)
         | OtherShardingSpec k \<Rightarrow> Inl (SpecError k)),
      reshard_local = (\<lambda>v spec.
         case v of
           ShardedTensor s \<Rightarrow>
             Inr \<lparr>shape = rev (shape (local_shard s)), contiguous = True,
                  storage = storage (local_shard s) + 10\<rparr>
         | _ \<Rightarrow> Inl (SpecError 0))\<rparr>"

definition chunk_spec :: sharding_spec where
  "chunk_spec = ChunkShardingSpec 0 [''rank:0'', ''rank:1'']"

definition example_tensor :: tensor where
  "example_tensor = \<lparr>shape = [4, 16], contiguous = True, storage = 0\<rparr>"

definition strided_tensor :: tensor where
  "strided_tensor = \<lparr>shape = [16, 4], contiguous = False, storage = 0\<rparr>"

text \<open>
  A linear layer: a weight and a bias, a flag that is no tensor, and a tensor attribute
  that is not contiguous.
\<close>

definition example_linear :: module_obj where
  "example_linear =
     \<lparr>parameters = [(''weight'', Some (1, example_tensor)),
                    (''bias'', Some (2, \<lparr>shape = [4], contiguous = True, storage = 1\<rparr>))],
      attributes = [(''training'', Other ''bool''), (''view'', Tensor strided_tensor)],
      forward_hooks = []\<rparr>"

text \<open>A module that holds one parameter object (address 7) under two names.\<close>

definition example_tied :: module_obj where
  "example_tied =
     \<lparr>parameters = [(''w1'', Some (7, example_tensor)), (''w2'', Some (7, example_tensor))],
      attributes = [],
      forward_hooks = []\<rparr>"

definition empty_module :: module_obj where
  "empty_module = \<lparr>parameters = [], attributes = [], forward_hooks = []\<rparr>"

text \<open>A module that holds the same parameter object (address 7) as \<open>example_tied\<close>.\<close>

definition example_sharing :: module_obj where
  "example_sharing =
     \<lparr>parameters = [(''w'', Some (7, example_tensor))], attributes = [], forward_hooks = []\<rparr>"

text \<open>
  Address 1 holds the linear layer, address 2 the tied module, address 3 the module that
  shares its parameter, the others nothing.
\<close>

definition example_state :: py_state where
  "example_state =
     \<lparr>heap = (\<lambda>a. if a = 1 then example_linear else if a = 2 then example_tied
                  else if a = 3 then example_sharing else empty_module),
      collectives = 0,
      shard_calls = []\<rparr>"

text \<open>A root module with the linear layer as its child \<^verbatim>\<open>linear\<close>.\<close>

definition example_tree :: module_tree where
  "example_tree = Module 0 [(''linear'', Module 1 [])]"

text \<open>The tied module with the sharing module as its child \<^verbatim>\<open>c\<close>.\<close>

definition tied_tree :: module_tree where
  "tied_tree = Module 2 [(''c'', Module 3 [])]"

text \<open>
  A plan that shards \<^verbatim>\<open>linear.weight\<close>, reshards the output of \<^verbatim>\<open>linear\<close> and collapses it.
\<close>

definition example_plan :: sharding_plan where
  "example_plan =
     \<lparr>plan = [''linear.weight'' \<mapsto> chunk_spec],
      output_plan = Some [''linear'' \<mapsto> ChunkShardingSpec 1 [''rank:0'', ''rank:1'']],
      return_local_tensor = Some [''linear'']\<rparr>"

definition plan_of :: "(string \<rightharpoonup> sharding_spec) \<Rightarrow> sharding_plan" where
  "plan_of m = \<lparr>plan = m, output_plan = None, return_local_tensor = None\<rparr>"

section \<open>Properties\<close>

lemmas example_defs = example_env_def chunk_spec_def example_tensor_def strided_tensor_def
  example_linear_def example_tied_def example_sharing_def empty_module_def example_state_def
  example_tree_def tied_tree_def example_plan_def plan_of_def

lemmas run_defs = shard_parameter_def shard_tensor_def all_gather_object_def spec_shard_def
  hasattr_def getattr_def delattr_def setattr_def remove_key_def param_value_def

lemmas module_defs = shard_module_def qualified_name_def install_hooks_def reshard_output_def
  collect_local_shard_def register_forward_hook_def

subsection \<open>The agreement check\<close>

lemma check_gathered_None:
  "check_gathered src_rank spec cur idx es = None \<longleftrightarrow> (\<forall>e\<in>set es. e = (src_rank, spec))"
  by (induction es arbitrary: idx) (auto simp: prod_eq_iff)

lemma check_gathered_Some:
  "check_gathered src_rank spec cur idx es = Some err \<Longrightarrow>
   \<exists>i<length es.
      (\<forall>j<i. es ! j = (src_rank, spec)) \<and>
      (fst (es ! i) \<noteq> src_rank \<and>
         err = InconsistentConfiguration (SrcRankMismatch src_rank cur (fst (es ! i)) (idx + i))
       \<or> fst (es ! i) = src_rank \<and> snd (es ! i) \<noteq> spec \<and>
         err = InconsistentConfiguration (SpecMismatch spec cur (snd (es ! i)) (idx + i)))"
proof (induction es arbitrary: idx)
  case Nil
  then show ?case by simp
next
  case (Cons entry rest)
  show ?case
  proof (cases "entry = (src_rank, spec)")
    case True
    with Cons.prems have "check_gathered src_rank spec cur (Suc idx) rest = Some err"
      by simp
    from Cons.IH [OF this] obtain i where i: "i < length rest"
      "\<forall>j<i. rest ! j = (src_rank, spec)"
      "fst (rest ! i) \<noteq> src_rank \<and>
         err = InconsistentConfiguration (SrcRankMismatch src_rank cur (fst (rest ! i)) (Suc idx + i))
       \<or> fst (rest ! i) = src_rank \<and> snd (rest ! i) \<noteq> spec \<and>
         err = InconsistentConfiguration (SpecMismatch spec cur (snd (rest ! i)) (Suc idx + i))"
      by blast
    have "\<forall>j<Suc i. (entry # rest) ! j = (src_rank, spec)"
      using True i(2) by (auto simp: nth_Cons split: nat.splits)
    with i(1,3) show ?thesis
      by (intro exI [of _ "Suc i"]) simp
  next
    case False
    with Cons.prems show ?thesis
      by (intro exI [of _ 0]) (auto simp: prod_eq_iff split: if_splits)
  qed
qed

lemma shard_tensor_heap: "heap (snd (shard_tensor env t spec r pg st)) = heap st"
  by (simp add: shard_tensor_def Let_def split: option.splits)

text \<open>
  Claim C2. For a contiguous tensor and a specification whose own \<^verbatim>\<open>shard\<close> returns on it,
  \<open>shard_tensor\<close> returns a sharded value iff every gathered pair equals the local (source
  rank, specification) pair. When all pairs agree, the result is that of the
  specification's \<^verbatim>\<open>shard\<close>, which is called once. When some pair differs, \<^verbatim>\<open>shard\<close> is not
  called, and the error is the \<open>InconsistentConfiguration\<close> of the first peer whose pair
  differs: when its source rank differs, the error names the two source ranks and the
  two ranks; otherwise it names the two specifications and the two ranks.
\<close>

theorem shard_tensor_agreement:
  "contiguous t \<Longrightarrow>
   (let pg = (case process_group of Some g \<Rightarrow> g | None \<Rightarrow> default_group env);
        gathered = all_gather_object env pg (collectives st) (src_rank, spec);
        res = shard_tensor env t spec src_rank process_group st
    in ((\<exists>l. shard_local env spec t src_rank process_group = Inr l) \<longrightarrow>
          ((\<exists>sh. fst res = Inr sh) \<longleftrightarrow> (\<forall>e\<in>set gathered. e = (src_rank, spec)))) \<and>
       ((\<forall>e\<in>set gathered. e = (src_rank, spec)) \<longrightarrow>
          fst res = spec_shard env spec t src_rank process_group \<and>
          shard_calls (snd res) = shard_calls st @ [(spec, t, src_rank, process_group)]) \<and>
       (\<not> (\<forall>e\<in>set gathered. e = (src_rank, spec)) \<longrightarrow>
          shard_calls (snd res) = shard_calls st \<and>
          (\<exists>i<length gathered.
             (\<forall>j<i. gathered ! j = (src_rank, spec)) \<and>
             gathered ! i \<noteq> (src_rank, spec) \<and>
             fst res = Inl (InconsistentConfiguration
               (if fst (gathered ! i) \<noteq> src_rank
                then SrcRankMismatch src_rank (get_rank env pg) (fst (gathered ! i)) i
                else SpecMismatch spec (get_rank env pg) (snd (gathered ! i)) i)))))"
proof -
  assume c: "contiguous t"
  define pg where "pg = (case process_group of Some g \<Rightarrow> g | None \<Rightarrow> default_group env)"
  define gathered where "gathered = all_gather_object env pg (collectives st) (src_rank, spec)"
  define res where "res = shard_tensor env t spec src_rank process_group st"
  let ?agree = "\<forall>e\<in>set gathered. e = (src_rank, spec)"
  have yes: "fst res = spec_shard env spec t src_rank process_group \<and>
      shard_calls (snd res) = shard_calls st @ [(spec, t, src_rank, process_group)]"
    if "?agree"
  proof -
    from that have "check_gathered src_rank spec (get_rank env pg) 0 gathered = None"
      by (simp only: check_gathered_None)
    then show ?thesis
      using c by (simp add: res_def shard_tensor_def Let_def pg_def gathered_def)
  qed
  have no: "shard_calls (snd res) = shard_calls st \<and>
      (\<exists>i<length gathered.
         (\<forall>j<i. gathered ! j = (src_rank, spec)) \<and>
         gathered ! i \<noteq> (src_rank, spec) \<and>
         fst res = Inl (InconsistentConfiguration
           (if fst (gathered ! i) \<noteq> src_rank
            then SrcRankMismatch src_rank (get_rank env pg) (fst (gathered ! i)) i
            else SpecMismatch spec (get_rank env pg) (snd (gathered ! i)) i)))"
    if "\<not> ?agree"
  proof -
    from that obtain err where
      err: "check_gathered src_rank spec (get_rank env pg) 0 gathered = Some err"
      using check_gathered_None [of src_rank spec "get_rank env pg" 0 gathered] by auto
    then have r: "res = (Inl err, st\<lparr>collectives := Suc (collectives st)\<rparr>)"
      using c by (simp add: res_def shard_tensor_def Let_def pg_def gathered_def)
    from check_gathered_Some [OF err] obtain i where i: "i < length gathered"
      "\<forall>j<i. gathered ! j = (src_rank, spec)"
      "fst (gathered ! i) \<noteq> src_rank \<and>
         err = InconsistentConfiguration
           (SrcRankMismatch src_rank (get_rank env pg) (fst (gathered ! i)) i)
       \<or> fst (gathered ! i) = src_rank \<and> snd (gathered ! i) \<noteq> spec \<and>
         err = InconsistentConfiguration
           (SpecMismatch spec (get_rank env pg) (snd (gathered ! i)) i)"
      by auto
    from i(3) have "gathered ! i \<noteq> (src_rank, spec)"
      by (auto simp: prod_eq_iff)
    moreover from i(3) have "err = InconsistentConfiguration
        (if fst (gathered ! i) \<noteq> src_rank
         then SrcRankMismatch src_rank (get_rank env pg) (fst (gathered ! i)) i
         else SpecMismatch spec (get_rank env pg) (snd (gathered ! i)) i)"
      by auto
    ultimately show ?thesis
      using i(1,2) unfolding r by (intro conjI exI [of _ i]) simp_all
  qed
  have iff: "(\<exists>sh. fst res = Inr sh) \<longleftrightarrow> ?agree"
    if "\<exists>l. shard_local env spec t src_rank process_group = Inr l"
  proof (cases ?agree)
    case True
    then show ?thesis
      using yes that by (auto simp: spec_shard_def)
  next
    case False
    then show ?thesis using no by auto
  qed
  show ?thesis
    using yes no iff
    unfolding pg_def [symmetric] Let_def gathered_def [symmetric] res_def [symmetric]
    by blast
qed

theorem shard_tensor_agreement_witness:
  "contiguous example_tensor \<and>
   fst (shard_tensor (example_env [(0, chunk_spec), (0, chunk_spec)]) example_tensor chunk_spec 0
          None example_state)
     = Inr \<lparr>sharding_spec = chunk_spec, local_shard = example_tensor\<lparr>storage := 1\<rparr>\<rparr> \<and>
   (\<nexists>sh. fst (shard_tensor (example_env [(0, chunk_spec), (1, chunk_spec)]) example_tensor
          chunk_spec 0 None example_state) = Inr sh) \<and>
   shard_calls (snd (shard_tensor (example_env [(0, chunk_spec), (1, chunk_spec)]) example_tensor
          chunk_spec 0 None example_state)) = []"
proof -
  let ?E1 = "example_env [(0, chunk_spec), (0, chunk_spec)]"
  let ?E2 = "example_env [(0, chunk_spec), (1, chunk_spec)]"
  have c: "contiguous example_tensor" by (simp add: example_tensor_def)
  have d: "default_group ?E1 = 0" "default_group ?E2 = 0" "collectives example_state = 0"
    "shard_calls example_state = []"
    by (simp_all add: example_env_def example_state_def)
  have a1: "\<forall>e\<in>set (all_gather_object ?E1 0 0 (0, chunk_spec)). e = (0, chunk_spec)"
    by (simp add: example_env_def all_gather_object_def)
  have a2: "\<not> (\<forall>e\<in>set (all_gather_object ?E2 0 0 (0, chunk_spec)). e = (0, chunk_spec))"
    by (simp add: example_env_def all_gather_object_def)
  have v: "\<exists>l. shard_local ?E2 chunk_spec example_tensor 0 None = Inr l"
    by (simp add: example_env_def chunk_spec_def)
  have s: "spec_shard ?E1 chunk_spec example_tensor 0 None
      = Inr \<lparr>sharding_spec = chunk_spec, local_shard = example_tensor\<lparr>storage := 1\<rparr>\<rparr>"
    by (simp add: example_env_def spec_shard_def chunk_spec_def example_tensor_def)
  have "fst (shard_tensor ?E1 example_tensor chunk_spec 0 None example_state)
      = spec_shard ?E1 chunk_spec example_tensor 0 None"
    using shard_tensor_agreement [OF c, where process_group = None and st = example_state
        and src_rank = 0 and spec = chunk_spec and env = ?E1] a1
    by (simp add: Let_def d)
  moreover have "(\<nexists>sh. fst (shard_tensor ?E2 example_tensor chunk_spec 0 None example_state)
        = Inr sh) \<and>
      shard_calls (snd (shard_tensor ?E2 example_tensor chunk_spec 0 None example_state)) = []"
    using shard_tensor_agreement [OF c, where process_group = None and st = example_state
        and src_rank = 0 and spec = chunk_spec and env = ?E2] a2 v
    by (simp add: Let_def d)
  ultimately show ?thesis using c s by simp
qed

subsection \<open>The parameter replacement\<close>

lemma shard_tensor_Inr_spec:
  "shard_tensor env t spec r pg st = (Inr sh, st1) \<Longrightarrow> sharding_spec sh = spec"
  by (auto simp: shard_tensor_def Let_def spec_shard_def split: if_splits option.splits sum.splits)

lemma map_of_set_key: "map_of (set_key k v xs) k = Some v"
  by (induction xs) auto

lemma map_of_set_key_other: "k' \<noteq> k \<Longrightarrow> map_of (set_key k v xs) k' = map_of xs k'"
  by (induction xs) auto

lemma not_in_remove_key: "k \<notin> fst ` set (remove_key k xs)"
  by (auto simp: remove_key_def)

lemma hasattr_getattr: "hasattr m name \<longleftrightarrow> (\<exists>v. getattr m name = Inr v)"
proof (cases "map_of (attributes m) name")
  case None
  then have a: "name \<notin> fst ` set (attributes m)"
    by (simp add: map_of_eq_None_iff)
  show ?thesis
  proof (cases "map_of (parameters m) name")
    case n: None
    then have "name \<notin> fst ` set (parameters m)"
      by (simp add: map_of_eq_None_iff)
    with a None n show ?thesis
      by (simp add: hasattr_def getattr_def)
  next
    case (Some p)
    then have "name \<in> fst ` set (parameters m)"
      using map_of_eq_None_iff [of "parameters m" name] by simp
    with None Some show ?thesis
      by (simp add: hasattr_def getattr_def)
  qed
next
  case (Some v)
  then have "name \<in> fst ` set (attributes m)"
    using map_of_eq_None_iff [of "attributes m" name] by simp
  with Some show ?thesis
    by (simp add: hasattr_def getattr_def)
qed

lemma delattr_hasattr: "hasattr m name \<Longrightarrow> \<exists>m1. delattr m name = Inr m1"
  by (auto simp: hasattr_def delattr_def)

lemma delattr_parameters:
  "delattr m name = Inr m1 \<Longrightarrow> name \<notin> fst ` set (parameters m1)"
  using not_in_remove_key [of name "parameters m"]
  by (auto simp: delattr_def split: if_splits)

lemma setattr_sharded:
  "name \<notin> fst ` set (parameters m1) \<Longrightarrow>
   setattr m1 name (ShardedTensor sh) =
     Inr (m1\<lparr>attributes := set_key name (ShardedTensor sh) (attributes m1)\<rparr>)"
  by (simp add: setattr_def)

text \<open>The three checks of lines 108-116, then the call of line 118 and the replacement.\<close>

lemma shard_parameter_checked:
  assumes v: "getattr (heap st module) name = Inr v"
    and t: "as_tensor v = Some t" "contiguous t"
    and s: "shard_tensor env t spec r pg st = (res, st1)"
  shows "shard_parameter env module name spec r pg st =
           (case res of
              Inl e \<Rightarrow> (Inl e, st1)
            | Inr sh \<Rightarrow>
                (case delattr (heap st module) name of
                   Inl e \<Rightarrow> (Inl e, st1)
                 | Inr m1 \<Rightarrow>
                     (Inr (), st1\<lparr>heap := fun_upd (heap st) module
                        (m1\<lparr>attributes := set_key name (ShardedTensor sh) (attributes m1)\<rparr>)\<rparr>)))"
proof -
  have has: "hasattr (heap st module) name"
    using v by (auto simp: hasattr_getattr)
  have h: "heap st1 = heap st"
    using shard_tensor_heap [of env t spec r pg st] s by simp
  show ?thesis
  proof (cases res)
    case (Inl e)
    with has v t s show ?thesis by (simp add: shard_parameter_def)
  next
    case (Inr sh)
    from delattr_hasattr [OF has] obtain m1 where m1: "delattr (heap st module) name = Inr m1"
      by blast
    have m2: "setattr m1 name (ShardedTensor sh) =
        Inr (m1\<lparr>attributes := set_key name (ShardedTensor sh) (attributes m1)\<rparr>)"
      using delattr_parameters [OF m1] by (rule setattr_sharded)
    from has v t s h Inr m1 m2 show ?thesis
      by (simp add: shard_parameter_def Let_def)
  qed
qed

lemma shard_parameter_unchecked:
  assumes "\<not> (\<exists>v t. getattr (heap st module) name = Inr v \<and> as_tensor v = Some t \<and> contiguous t)"
  shows "\<exists>e. shard_parameter env module name spec r pg st = (Inl e, st)"
proof (cases "hasattr (heap st module) name")
  case False
  then show ?thesis by (simp add: shard_parameter_def)
next
  case True
  then obtain v where v: "getattr (heap st module) name = Inr v"
    by (auto simp: hasattr_getattr)
  show ?thesis
  proof (cases "as_tensor v")
    case None
    with True v show ?thesis by (simp add: shard_parameter_def)
  next
    case (Some t)
    with assms v have "\<not> contiguous t" by simp
    with True v Some show ?thesis by (simp add: shard_parameter_def)
  qed
qed

text \<open>What a run of \<open>shard_parameter\<close> that returns has done.\<close>

lemma shard_parameter_Inr:
  assumes "shard_parameter env module name spec r pg st = (Inr u, st')"
  shows "\<exists>v t sh st1 m1.
           getattr (heap st module) name = Inr v \<and> as_tensor v = Some t \<and> contiguous t \<and>
           shard_tensor env t spec r pg st = (Inr sh, st1) \<and>
           delattr (heap st module) name = Inr m1 \<and>
           name \<notin> fst ` set (parameters m1) \<and>
           st' = st1\<lparr>heap := fun_upd (heap st) module
                  (m1\<lparr>attributes := set_key name (ShardedTensor sh) (attributes m1)\<rparr>)\<rparr>"
proof -
  have "\<exists>v t. getattr (heap st module) name = Inr v \<and> as_tensor v = Some t \<and> contiguous t"
    using shard_parameter_unchecked [of st module name env spec r pg] assms by fastforce
  then obtain v t where v: "getattr (heap st module) name = Inr v"
    and t: "as_tensor v = Some t" "contiguous t"
    by blast
  obtain res st1 where s: "shard_tensor env t spec r pg st = (res, st1)"
    by (cases "shard_tensor env t spec r pg st")
  note eq = shard_parameter_checked [OF v t s]
  from assms eq obtain sh where sh: "res = Inr sh"
    by (cases res) auto
  from assms eq sh obtain m1 where m1: "delattr (heap st module) name = Inr m1"
    by (cases "delattr (heap st module) name") auto
  from assms eq sh m1 have "st' = st1\<lparr>heap := fun_upd (heap st) module
      (m1\<lparr>attributes := set_key name (ShardedTensor sh) (attributes m1)\<rparr>)\<rparr>"
    by simp
  with v t s sh m1 delattr_parameters [OF m1] show ?thesis by blast
qed

lemma shard_parameter_Inl:
  assumes "shard_parameter env module name spec r pg st = (Inl e, st')"
  shows "heap st' = heap st"
proof (cases "\<exists>v t. getattr (heap st module) name = Inr v \<and> as_tensor v = Some t \<and> contiguous t")
  case False
  from shard_parameter_unchecked [OF False, of env spec r pg] assms show ?thesis by auto
next
  case True
  then obtain v t where v: "getattr (heap st module) name = Inr v"
    and t: "as_tensor v = Some t" "contiguous t"
    by blast
  obtain res st1 where s: "shard_tensor env t spec r pg st = (res, st1)"
    by (cases "shard_tensor env t spec r pg st")
  have h: "heap st1 = heap st"
    using shard_tensor_heap [of env t spec r pg st] s by simp
  have has: "hasattr (heap st module) name"
    using v by (auto simp: hasattr_getattr)
  from delattr_hasattr [OF has] obtain m1 where m1: "delattr (heap st module) name = Inr m1"
    by blast
  from assms shard_parameter_checked [OF v t s] m1 h show ?thesis
    by (cases res) auto
qed

text \<open>
  Claim C3. \<open>shard_parameter\<close> on a module without the named attribute fails with
  \<open>NotFound\<close>; on an attribute that is no tensor it fails with \<open>TypeMismatch\<close>, reporting
  the expected and the found kind; on a tensor that is not contiguous it fails with
  \<open>InvalidInput\<close>. In each case the state is returned as it was: the checks come before
  any effect.
\<close>

theorem shard_parameter_preconditions:
  "(\<not> hasattr (heap st module) name \<longrightarrow>
      shard_parameter env module name spec r pg st = (Inl (NotFound name), st)) \<and>
   (\<forall>v. getattr (heap st module) name = Inr v \<and> as_tensor v = None \<longrightarrow>
      shard_parameter env module name spec r pg st =
        (Inl (TypeMismatch name ''Tensor'' (type_name v)), st)) \<and>
   (\<forall>v t. getattr (heap st module) name = Inr v \<and> as_tensor v = Some t \<and> \<not> contiguous t \<longrightarrow>
      shard_parameter env module name spec r pg st = (Inl (InvalidInput (Some name)), st))"
  using hasattr_getattr [of "heap st module" name]
  by (auto simp: shard_parameter_def)

theorem shard_parameter_preconditions_witness:
  "shard_parameter (example_env []) 1 ''w'' chunk_spec 0 None example_state
     = (Inl (NotFound ''w''), example_state) \<and>
   shard_parameter (example_env []) 1 ''training'' chunk_spec 0 None example_state
     = (Inl (TypeMismatch ''training'' ''Tensor'' ''bool''), example_state) \<and>
   shard_parameter (example_env []) 1 ''view'' chunk_spec 0 None example_state
     = (Inl (InvalidInput (Some ''view'')), example_state)"
  using shard_parameter_preconditions [where st = example_state and module = 1 and name = "''w''"
      and env = "example_env []" and spec = chunk_spec and r = 0 and pg = None]
    shard_parameter_preconditions [where st = example_state and module = 1
      and name = "''training''" and env = "example_env []" and spec = chunk_spec and r = 0
      and pg = None]
    shard_parameter_preconditions [where st = example_state and module = 1 and name = "''view''"
      and env = "example_env []" and spec = chunk_spec and r = 0 and pg = None]
  by (simp add: example_defs hasattr_def getattr_def)

text \<open>
  Claim C4. After \<open>shard_parameter\<close> has returned, the attribute holds a sharded value, which
  is no dense tensor, whose specification is the one passed; the module is the result of
  deleting the attribute and then setting it.
\<close>

theorem shard_parameter_installs:
  assumes "shard_parameter env module name spec r pg st = (Inr u, st')"
  shows "\<exists>sh m1.
           getattr (heap st' module) name = Inr (ShardedTensor sh) \<and>
           as_tensor (ShardedTensor sh) = None \<and>
           sharding_spec sh = spec \<and>
           delattr (heap st module) name = Inr m1 \<and>
           setattr m1 name (ShardedTensor sh) = Inr (heap st' module)"
proof -
  from shard_parameter_Inr [OF assms] obtain v t sh st1 m1 where
    s: "shard_tensor env t spec r pg st = (Inr sh, st1)" and
    m1: "delattr (heap st module) name = Inr m1" and
    st': "st' = st1\<lparr>heap := fun_upd (heap st) module
           (m1\<lparr>attributes := set_key name (ShardedTensor sh) (attributes m1)\<rparr>)\<rparr>"
    by blast
  define m2 where "m2 = m1\<lparr>attributes := set_key name (ShardedTensor sh) (attributes m1)\<rparr>"
  note eq = m2_def
  have m2: "setattr m1 name (ShardedTensor sh) = Inr m2"
    using setattr_sharded [OF delattr_parameters [OF m1], of sh] by (simp add: m2_def)
  have "getattr m2 name = Inr (ShardedTensor sh)"
    by (simp add: eq getattr_def map_of_set_key)
  with shard_tensor_Inr_spec [OF s] m1 m2 st' show ?thesis by (simp add: m2_def [symmetric])
qed

theorem shard_parameter_installs_witness:
  "shard_parameter (example_env [(0, chunk_spec), (0, chunk_spec)]) 1 ''weight'' chunk_spec 0 None
     example_state
   = (Inr (), snd (shard_parameter (example_env [(0, chunk_spec), (0, chunk_spec)]) 1 ''weight''
        chunk_spec 0 None example_state)) \<and>
   getattr (heap (snd (shard_parameter (example_env [(0, chunk_spec), (0, chunk_spec)]) 1
      ''weight'' chunk_spec 0 None example_state)) 1) ''weight''
   = Inr (ShardedTensor \<lparr>sharding_spec = chunk_spec,
        local_shard = example_tensor\<lparr>storage := 1\<rparr>\<rparr>)"
proof -
  have run: "shard_parameter (example_env [(0, chunk_spec), (0, chunk_spec)]) 1 ''weight''
      chunk_spec 0 None example_state
    = (Inr (), snd (shard_parameter (example_env [(0, chunk_spec), (0, chunk_spec)]) 1 ''weight''
        chunk_spec 0 None example_state))"
    by (simp add: example_defs run_defs)
  have "getattr (heap (snd (shard_parameter (example_env [(0, chunk_spec), (0, chunk_spec)]) 1
      ''weight'' chunk_spec 0 None example_state)) 1) ''weight''
    = Inr (ShardedTensor \<lparr>sharding_spec = chunk_spec,
        local_shard = example_tensor\<lparr>storage := 1\<rparr>\<rparr>)"
    by (simp add: example_defs run_defs)
  with run shard_parameter_installs [OF run] show ?thesis by simp
qed

text \<open>
  Claim C9. Whenever \<open>shard_parameter\<close> fails, with whatever error, every module object is
  as before the call; in particular the attribute still holds its old value.
\<close>

theorem shard_parameter_failure_keeps_module:
  "shard_parameter env module name spec r pg st = (Inl e, st') \<Longrightarrow>
   heap st' = heap st \<and> getattr (heap st' module) name = getattr (heap st module) name"
  using shard_parameter_Inl [of env module name spec r pg st e st'] by simp

theorem shard_parameter_failure_keeps_module_witness:
  "shard_parameter (example_env [(0, chunk_spec), (1, chunk_spec)]) 1 ''weight'' chunk_spec 0 None
     example_state
   = (Inl (InconsistentConfiguration (SrcRankMismatch 0 0 1 1)),
      example_state\<lparr>collectives := 1\<rparr>) \<and>
   getattr (heap (example_state\<lparr>collectives := 1\<rparr>) 1) ''weight''
   = Inr (Parameter 1 example_tensor)"
proof -
  have run: "shard_parameter (example_env [(0, chunk_spec), (1, chunk_spec)]) 1 ''weight''
      chunk_spec 0 None example_state
    = (Inl (InconsistentConfiguration (SrcRankMismatch 0 0 1 1)),
       example_state\<lparr>collectives := 1\<rparr>)"
    by (simp add: example_defs run_defs)
  have "getattr (heap example_state 1) ''weight'' = Inr (Parameter 1 example_tensor)"
    by (simp add: example_defs run_defs)
  with run shard_parameter_failure_keeps_module [OF run] show ?thesis by simp
qed

text \<open>
  Claim C10. After \<open>shard_parameter\<close> has returned, the name is no key of the module's
  parameter table; the sharded value is a plain attribute, and a lookup of the name
  yields it.
\<close>

theorem shard_parameter_plain_attribute:
  assumes "shard_parameter env module name spec r pg st = (Inr u, st')"
  shows "name \<notin> fst ` set (parameters (heap st' module)) \<and>
         name \<notin> set (map fst (parameters (heap st' module))) \<and>
         (\<exists>sh. map_of (attributes (heap st' module)) name = Some (ShardedTensor sh) \<and>
               getattr (heap st' module) name = Inr (ShardedTensor sh))"
proof -
  from shard_parameter_Inr [OF assms] obtain v t sh st1 m1 where
    m1: "delattr (heap st module) name = Inr m1" and
    st': "st' = st1\<lparr>heap := fun_upd (heap st) module
           (m1\<lparr>attributes := set_key name (ShardedTensor sh) (attributes m1)\<rparr>)\<rparr>"
    by blast
  define m2 where "m2 = m1\<lparr>attributes := set_key name (ShardedTensor sh) (attributes m1)\<rparr>"
  note eq = m2_def
  have "name \<notin> fst ` set (parameters m2)"
    using delattr_parameters [OF m1] by (simp add: eq)
  moreover have "map_of (attributes m2) name = Some (ShardedTensor sh)"
    by (simp add: eq map_of_set_key)
  moreover have "getattr m2 name = Inr (ShardedTensor sh)"
    by (simp add: eq getattr_def map_of_set_key)
  ultimately show ?thesis by (simp add: st' m2_def [symmetric])
qed

theorem shard_parameter_plain_attribute_witness:
  "shard_parameter (example_env [(0, chunk_spec), (0, chunk_spec)]) 1 ''weight'' chunk_spec 0 None
     example_state
   = (Inr (), snd (shard_parameter (example_env [(0, chunk_spec), (0, chunk_spec)]) 1 ''weight''
        chunk_spec 0 None example_state)) \<and>
   map fst (parameters (heap (snd (shard_parameter (example_env [(0, chunk_spec), (0, chunk_spec)])
      1 ''weight'' chunk_spec 0 None example_state)) 1)) = [''bias'']"
proof -
  have run: "shard_parameter (example_env [(0, chunk_spec), (0, chunk_spec)]) 1 ''weight''
      chunk_spec 0 None example_state
    = (Inr (), snd (shard_parameter (example_env [(0, chunk_spec), (0, chunk_spec)]) 1 ''weight''
        chunk_spec 0 None example_state))"
    by (simp add: example_defs run_defs)
  have "map fst (parameters (heap (snd (shard_parameter
      (example_env [(0, chunk_spec), (0, chunk_spec)]) 1 ''weight'' chunk_spec 0 None
      example_state)) 1)) = [''bias'']"
    by (simp add: example_defs run_defs)
  with run shard_parameter_plain_attribute [OF run] show ?thesis by simp
qed

subsection \<open>The collapse hook and the scoping context\<close>

text \<open>
  Claim C6. On a sharded output the collapse hook returns the local shard. When the
  specification is a chunk specification whose dimension the local shard has (counted
  from the end when negative), the dimension is removed exactly when the local shard's
  size along it is 1: a local shard of sizes [1, 16] split on dimension 0 comes back with
  sizes [16], one of sizes [2, 16] comes back unchanged.
\<close>

theorem collect_hook_func_sharded:
  "(\<forall>k. sharding_spec s = OtherShardingSpec k \<longrightarrow>
      collect_hook_func (ShardedTensor s) = Inr (Tensor (local_shard s))) \<and>
   (\<forall>d ps. sharding_spec s = ChunkShardingSpec d ps \<and>
      - int (length (shape (local_shard s))) \<le> d \<and> d < int (length (shape (local_shard s))) \<longrightarrow>
      (let i = nat (if d < 0 then d + int (length (shape (local_shard s))) else d)
       in collect_hook_func (ShardedTensor s) =
            Inr (Tensor (if shape (local_shard s) ! i = 1
                         then (local_shard s)\<lparr>shape := take i (shape (local_shard s)) @
                                                       drop (Suc i) (shape (local_shard s))\<rparr>
                         else local_shard s))))"
  by (auto simp: collect_hook_func_def tensor_size_def squeeze_def Let_def)

theorem collect_hook_func_sharded_witness:
  "collect_hook_func (ShardedTensor \<lparr>sharding_spec = ChunkShardingSpec 0 [],
       local_shard = \<lparr>shape = [1, 16], contiguous = True, storage = 0\<rparr>\<rparr>)
     = Inr (Tensor \<lparr>shape = [16], contiguous = True, storage = 0\<rparr>) \<and>
   collect_hook_func (ShardedTensor \<lparr>sharding_spec = ChunkShardingSpec 0 [],
       local_shard = \<lparr>shape = [2, 16], contiguous = True, storage = 0\<rparr>\<rparr>)
     = Inr (Tensor \<lparr>shape = [2, 16], contiguous = True, storage = 0\<rparr>) \<and>
   collect_hook_func (ShardedTensor \<lparr>sharding_spec = OtherShardingSpec 3,
       local_shard = \<lparr>shape = [1, 16], contiguous = True, storage = 0\<rparr>\<rparr>)
     = Inr (Tensor \<lparr>shape = [1, 16], contiguous = True, storage = 0\<rparr>)"
  using collect_hook_func_sharded [where s = "\<lparr>sharding_spec = ChunkShardingSpec 0 [],
       local_shard = \<lparr>shape = [1, 16], contiguous = True, storage = 0\<rparr>\<rparr>"]
    collect_hook_func_sharded [where s = "\<lparr>sharding_spec = ChunkShardingSpec 0 [],
       local_shard = \<lparr>shape = [2, 16], contiguous = True, storage = 0\<rparr>\<rparr>"]
    collect_hook_func_sharded [where s = "\<lparr>sharding_spec = OtherShardingSpec 3,
       local_shard = \<lparr>shape = [1, 16], contiguous = True, storage = 0\<rparr>\<rparr>"]
  by simp

text \<open>
  Claim C8. Entering the scope while an override is set fails with \<open>ReentrancyError\<close> and
  leaves the override as it is. Otherwise the body runs with the given group as the
  override, and the override is cleared when the scope is left, whether the body
  returned or raised. The read operation returns the override when one is set and the
  default group when none is, as after the scope. Entering a scope inside a scope fails,
  and the outer scope still clears the override.
\<close>

theorem load_with_process_group_scope:
  "(current \<noteq> None \<longrightarrow>
      load_with_process_group process_group body current = (Inl ReentrancyError, current)) \<and>
   (current = None \<longrightarrow>
      load_with_process_group process_group body current
        = (fst (body process_group process_group), None)) \<and>
   get_current_process_group env (Some g) = g \<and>
   get_current_process_group env None = default_group env \<and>
   get_current_process_group env (snd (load_with_process_group process_group body None))
     = default_group env \<and>
   load_with_process_group (Some outer_group)
       (\<lambda>y cur. load_with_process_group (Some inner_group) inner cur) None
     = (Inl ReentrancyError, None)"
  by (simp add: load_with_process_group_def get_current_process_group_def split: prod.splits)

theorem load_with_process_group_scope_witness:
  "load_with_process_group (Some 1)
      (\<lambda>y cur. (Inr (get_current_process_group (example_env []) cur), cur)) (Some 2)
     = (Inl ReentrancyError, Some 2) \<and>
   load_with_process_group (Some 1)
      (\<lambda>y cur. (Inr (get_current_process_group (example_env []) cur), cur)) None
     = (Inr 1, None) \<and>
   load_with_process_group (Some 1) (\<lambda>y cur. (Inl IndexError :: error + nat, cur)) None
     = (Inl IndexError, None)"
proof -
  let ?read = "\<lambda>(y :: process_group option) cur.
      (Inr (get_current_process_group (example_env []) cur) :: error + nat, cur)"
  let ?fail = "\<lambda>(y :: process_group option) (cur :: process_group option).
      (Inl IndexError :: error + nat, cur)"
  have "load_with_process_group (Some 1) ?read (Some 2) = (Inl ReentrancyError, Some 2)"
    using load_with_process_group_scope [where current = "Some 2" and process_group = "Some 1"
        and body = ?read and env = "example_env []" and g = 0 and inner_group = 0 and outer_group = 0
        and inner = ?read]
    by blast
  moreover have "load_with_process_group (Some 1) ?read None
      = (fst (?read (Some 1) (Some 1)), None)"
    using load_with_process_group_scope [where current = None and process_group = "Some 1"
        and body = ?read and env = "example_env []" and g = 0 and inner_group = 0 and outer_group = 0
        and inner = ?read]
    by blast
  moreover have "load_with_process_group (Some 1) ?fail None
      = (fst (?fail (Some 1) (Some 1)), None)"
    using load_with_process_group_scope [where current = None and process_group = "Some 1"
        and body = ?fail and env = "example_env []" and g = 0 and inner_group = 0 and outer_group = 0
        and inner = ?read]
    by blast
  ultimately show ?thesis
    by (simp add: get_current_process_group_def)
qed

subsection \<open>What a run leaves alone\<close>

lemma map_of_remove_key:
  "map_of (remove_key k xs) k' = (if k' = k then None else map_of xs k')"
  by (induction xs) (auto simp: remove_key_def)

lemma delattr_frame:
  assumes "delattr m k = Inr m1"
  shows "forward_hooks m1 = forward_hooks m"
    and "k' \<noteq> k \<Longrightarrow> map_of (parameters m1) k' = map_of (parameters m) k'"
    and "k' \<noteq> k \<Longrightarrow> map_of (attributes m1) k' = map_of (attributes m) k'"
  using assms by (auto simp: delattr_def map_of_remove_key split: if_splits)

text \<open>What a call of \<open>shard_parameter\<close> leaves alone, whether it returns or raises.\<close>

lemma shard_parameter_frame:
  assumes "shard_parameter env a k spec r pg st = (res, st')"
  shows "x \<noteq> a \<Longrightarrow> heap st' x = heap st x"
    and "forward_hooks (heap st' x) = forward_hooks (heap st x)"
    and "k' \<noteq> k \<Longrightarrow> map_of (parameters (heap st' a)) k' = map_of (parameters (heap st a)) k'"
    and "k' \<noteq> k \<Longrightarrow> map_of (attributes (heap st' a)) k' = map_of (attributes (heap st a)) k'"
proof -
  have "(x \<noteq> a \<longrightarrow> heap st' x = heap st x) \<and>
      forward_hooks (heap st' x) = forward_hooks (heap st x) \<and>
      (k' \<noteq> k \<longrightarrow> map_of (parameters (heap st' a)) k' = map_of (parameters (heap st a)) k' \<and>
         map_of (attributes (heap st' a)) k' = map_of (attributes (heap st a)) k')"
  proof (cases res)
    case (Inl e)
    with assms have "heap st' = heap st" by (simp add: shard_parameter_Inl)
    then show ?thesis by simp
  next
    case (Inr u)
    with assms have "shard_parameter env a k spec r pg st = (Inr u, st')" by simp
    from shard_parameter_Inr [OF this] obtain sh st1 m1 where
      m1: "delattr (heap st a) k = Inr m1" and
      st': "st' = st1\<lparr>heap := fun_upd (heap st) a
             (m1\<lparr>attributes := set_key k (ShardedTensor sh) (attributes m1)\<rparr>)\<rparr>"
      by blast
    show ?thesis
      using delattr_frame [OF m1]
      by (simp add: st' map_of_set_key_other)
  qed
  then show "x \<noteq> a \<Longrightarrow> heap st' x = heap st x"
    and "forward_hooks (heap st' x) = forward_hooks (heap st x)"
    and "k' \<noteq> k \<Longrightarrow> map_of (parameters (heap st' a)) k' = map_of (parameters (heap st a)) k'"
    and "k' \<noteq> k \<Longrightarrow> map_of (attributes (heap st' a)) k' = map_of (attributes (heap st a)) k'"
    by simp_all
qed

lemma shard_parameters_frame:
  assumes "shard_parameters env pl r pg p a ks memo st = (res, st')"
  shows "(x \<noteq> a \<longrightarrow> heap st' x = heap st x) \<and>
         forward_hooks (heap st' x) = forward_hooks (heap st x) \<and>
         (k' \<notin> set ks \<longrightarrow>
            map_of (parameters (heap st' a)) k' = map_of (parameters (heap st a)) k' \<and>
            map_of (attributes (heap st' a)) k' = map_of (attributes (heap st a)) k')"
  using assms
proof (induction ks arbitrary: memo st)
  case Nil
  then show ?case by simp
next
  case (Cons k ks)
  show ?case
  proof (cases "map_of (parameters (heap st a)) k")
    case None
    with Cons.prems show ?thesis by simp
  next
    case (Some v)
    show ?thesis
    proof (cases v)
      case None
      with Some Cons.prems have "shard_parameters env pl r pg p a ks memo st = (res, st')"
        by simp
      from Cons.IH [OF this] show ?thesis by simp
    next
      case v: (Some at)
      obtain addr t where at: "at = (addr, t)" by (cases at)
      show ?thesis
      proof (cases "addr \<in> memo")
        case True
        with Some v at Cons.prems have "shard_parameters env pl r pg p a ks memo st = (res, st')"
          by simp
        from Cons.IH [OF this] show ?thesis by simp
      next
        case False
        show ?thesis
        proof (cases "plan pl (qualified_name p k)")
          case None
          with Some v at False Cons.prems
          have "shard_parameters env pl r pg p a ks (insert addr memo) st = (res, st')"
            by simp
          from Cons.IH [OF this] show ?thesis by simp
        next
          case spec: (Some spec)
          obtain r1 st1 where sp: "shard_parameter env a k spec r pg st = (r1, st1)"
            by (cases "shard_parameter env a k spec r pg st")
          note fr = shard_parameter_frame [OF sp]
          show ?thesis
          proof (cases r1)
            case (Inl e)
            with Some v at False spec sp Cons.prems have "st' = st1" by simp
            with fr show ?thesis by simp
          next
            case (Inr u)
            with Some v at False spec sp Cons.prems
            have "shard_parameters env pl r pg p a ks (insert addr memo) st1 = (res, st')"
              by simp
            from Cons.IH [OF this] fr show ?thesis by simp
          qed
        qed
      qed
    qed
  qed
qed

lemma install_hooks_frame:
  "parameters (heap (install_hooks pl p a st) x) = parameters (heap st x)"
  "attributes (heap (install_hooks pl p a st) x) = attributes (heap st x)"
  "x \<noteq> a \<Longrightarrow> heap (install_hooks pl p a st) x = heap st x"
  by (simp_all add: install_hooks_def reshard_output_def collect_local_shard_def
      register_forward_hook_def split: option.splits)

lemma install_hooks_both:
  assumes "output_plan pl = Some op" "op p = Some rspec"
    and "return_local_tensor pl = Some names" "p \<in> set names"
  shows "forward_hooks (heap (install_hooks pl p a st) a)
         = forward_hooks (heap st a) @ [ReshardOutput rspec, CollectLocalShard]"
  using assms
  by (simp add: install_hooks_def reshard_output_def collect_local_shard_def
      register_forward_hook_def)

lemma shard_modules_append:
  "shard_modules env pl r pg (xs @ ys) st =
     (case shard_modules env pl r pg xs st of
        (Inl e, st1) \<Rightarrow> (Inl e, st1)
      | (Inr u, st1) \<Rightarrow> shard_modules env pl r pg ys st1)"
proof (induction xs arbitrary: st)
  case Nil
  then show ?case by simp
next
  case (Cons x xs)
  obtain p a where x: "x = (p, a)" by (cases x)
  show ?case
    by (simp add: x Cons.IH Let_def split: prod.splits sum.splits)
qed

lemma shard_modules_other:
  assumes "shard_modules env pl r pg nm st = (res, st')" and "a \<notin> snd ` set nm"
  shows "heap st' a = heap st a"
  using assms
proof (induction nm arbitrary: st)
  case Nil
  then show ?case by simp
next
  case (Cons x nm)
  obtain p b where x: "x = (p, b)" by (cases x)
  with Cons.prems have ne: "a \<noteq> b" and notin: "a \<notin> snd ` set nm" by auto
  obtain r1 st1 where sp:
    "shard_parameters env pl r pg p b (map fst (parameters (heap st b))) {} st = (r1, st1)"
    by (cases "shard_parameters env pl r pg p b (map fst (parameters (heap st b))) {} st")
  from shard_parameters_frame [OF sp, of a] ne have h1: "heap st1 a = heap st a" by simp
  show ?case
  proof (cases r1)
    case (Inl e)
    with Cons.prems x sp have "st' = st1" by (simp add: Let_def)
    with h1 show ?thesis by simp
  next
    case (Inr u)
    with Cons.prems x sp
    have "shard_modules env pl r pg nm (install_hooks pl p b st1) = (res, st')"
      by (simp add: Let_def)
    from Cons.IH [OF this notin] install_hooks_frame(3) [OF ne, of pl p st1] h1
    show ?thesis by simp
  qed
qed

subsection \<open>The loop over the parameters of a module\<close>

lemma param_ids_Cons: "param_ids (kv # ps) = param_ids [kv] \<union> param_ids ps"
proof (cases kv)
  case (Pair k v)
  then show ?thesis by (cases v) auto
qed

lemma shard_parameter_post:
  assumes "shard_parameter env a k spec r pg st = (Inr u, st1)"
  shows "map_of (parameters (heap st1 a)) k = None \<and>
         (\<exists>sh. sharding_spec sh = spec \<and>
               map_of (attributes (heap st1 a)) k = Some (ShardedTensor sh))"
proof -
  from shard_parameter_Inr [OF assms] obtain t sh st0 m1 where
    s: "shard_tensor env t spec r pg st = (Inr sh, st0)" and
    n: "k \<notin> fst ` set (parameters m1)" and
    st1: "st1 = st0\<lparr>heap := fun_upd (heap st) a
           (m1\<lparr>attributes := set_key k (ShardedTensor sh) (attributes m1)\<rparr>)\<rparr>"
    by blast
  from n have "map_of (parameters m1) k = None"
    by (simp add: map_of_eq_None_iff)
  with shard_tensor_Inr_spec [OF s] show ?thesis
    by (auto simp: st1 map_of_set_key)
qed

text \<open>One turn of the loop of lines 266-279, in a run that returns.\<close>

lemma shard_parameters_step:
  assumes run: "shard_parameters env pl r pg p a (k0 # ks) memo st = (Inr u, st')"
    and tab: "map_of (parameters (heap st a)) k0 = Some v0"
  shows "\<exists>st1. shard_parameters env pl r pg p a ks (memo \<union> param_ids [(k0, v0)]) st1 = (Inr u, st') \<and>
           (if \<exists>addr t spec. v0 = Some (addr, t) \<and> addr \<notin> memo \<and>
                 plan pl (qualified_name p k0) = Some spec
            then \<exists>u1. shard_parameter env a k0 (the (plan pl (qualified_name p k0))) r pg st
                   = (Inr u1, st1)
            else st1 = st)"
proof (cases v0)
  case None
  with run tab show ?thesis by simp
next
  case (Some at)
  obtain addr t where at: "at = (addr, t)" by (cases at)
  show ?thesis
  proof (cases "addr \<in> memo")
    case True
    then have "memo \<union> {addr} = memo" by auto
    with True run tab Some at show ?thesis by simp
  next
    case False
    show ?thesis
    proof (cases "plan pl (qualified_name p k0)")
      case None
      with False run tab Some at show ?thesis by simp
    next
      case spec: (Some spec)
      obtain r1 st1 where sp: "shard_parameter env a k0 spec r pg st = (r1, st1)"
        by (cases "shard_parameter env a k0 spec r pg st")
      show ?thesis
      proof (cases r1)
        case (Inl e)
        with False run tab Some at spec sp show ?thesis by simp
      next
        case (Inr u1)
        with False run tab Some at spec sp
        have "shard_parameters env pl r pg p a ks (insert addr memo) st1 = (Inr u, st')"
          by simp
        with False Some at spec sp Inr show ?thesis
          by (intro exI [of _ st1]) simp
      qed
    qed
  qed
qed

text \<open>
  What the loop over the keys of one module has done when it returns: a key is sharded
  when it holds a parameter object not seen at an earlier key and its qualified name is
  in the plan; every other key is as before.
\<close>

lemma shard_parameters_post:
  assumes "shard_parameters env pl r pg p a (map fst rest) memo st = (Inr u, st')"
    and "distinct (map fst rest)"
    and "\<forall>kv\<in>set rest. map_of (parameters (heap st a)) (fst kv) = Some (snd kv)"
    and "i < length rest"
  shows "if \<exists>addr t spec. snd (rest ! i) = Some (addr, t) \<and>
              addr \<notin> memo \<union> param_ids (take i rest) \<and>
              plan pl (qualified_name p (fst (rest ! i))) = Some spec
         then map_of (parameters (heap st' a)) (fst (rest ! i)) = None \<and>
              (\<exists>sh. sharding_spec sh = the (plan pl (qualified_name p (fst (rest ! i)))) \<and>
                 map_of (attributes (heap st' a)) (fst (rest ! i)) = Some (ShardedTensor sh))
         else map_of (parameters (heap st' a)) (fst (rest ! i)) = Some (snd (rest ! i)) \<and>
              map_of (attributes (heap st' a)) (fst (rest ! i))
                = map_of (attributes (heap st a)) (fst (rest ! i))"
  using assms
proof (induction rest arbitrary: memo st i)
  case Nil
  then show ?case by simp
next
  case (Cons kv rest)
  obtain k0 v0 where kv: "kv = (k0, v0)" by (cases kv)
  from Cons.prems(3) kv have tab0: "map_of (parameters (heap st a)) k0 = Some v0" by simp
  from Cons.prems(1) kv
  have run: "shard_parameters env pl r pg p a (k0 # map fst rest) memo st = (Inr u, st')"
    by simp
  let ?sel = "\<exists>addr t spec. v0 = Some (addr, t) \<and> addr \<notin> memo \<and>
      plan pl (qualified_name p k0) = Some spec"
  from shard_parameters_step [OF run tab0] obtain st1 where
    run1: "shard_parameters env pl r pg p a (map fst rest) (memo \<union> param_ids [(k0, v0)]) st1
       = (Inr u, st')" and
    head: "if ?sel
       then \<exists>u1. shard_parameter env a k0 (the (plan pl (qualified_name p k0))) r pg st
              = (Inr u1, st1)
       else st1 = st"
    by blast
  from Cons.prems(2) kv have k0: "k0 \<notin> set (map fst rest)" and dist: "distinct (map fst rest)"
    by simp_all
  have fr1: "map_of (parameters (heap st1 a)) k' = map_of (parameters (heap st a)) k' \<and>
      map_of (attributes (heap st1 a)) k' = map_of (attributes (heap st a)) k'" if "k' \<noteq> k0" for k'
  proof (cases ?sel)
    case True
    with head obtain u1 where
      "shard_parameter env a k0 (the (plan pl (qualified_name p k0))) r pg st = (Inr u1, st1)"
      by auto
    from shard_parameter_frame(3,4) [OF this that] show ?thesis by simp
  next
    case False
    with head show ?thesis by simp
  qed
  have tab1: "\<forall>kv\<in>set rest. map_of (parameters (heap st1 a)) (fst kv) = Some (snd kv)"
  proof
    fix x assume x: "x \<in> set rest"
    with k0 have "fst x \<noteq> k0" by auto
    with fr1 [of "fst x"] Cons.prems(3) x show "map_of (parameters (heap st1 a)) (fst x) = Some (snd x)"
      by simp
  qed
  show ?case
  proof (cases i)
    case 0
    from shard_parameters_frame [OF run1, of a k0] k0
    have keep: "map_of (parameters (heap st' a)) k0 = map_of (parameters (heap st1 a)) k0"
      "map_of (attributes (heap st' a)) k0 = map_of (attributes (heap st1 a)) k0"
      by simp_all
    show ?thesis
    proof (cases ?sel)
      case True
      with head obtain u1 where
        "shard_parameter env a k0 (the (plan pl (qualified_name p k0))) r pg st = (Inr u1, st1)"
        by auto
      from shard_parameter_post [OF this] keep True show ?thesis
        by (simp add: 0 kv)
    next
      case False
      with head have "st1 = st" by simp
      with keep tab0 False show ?thesis
        by (simp add: 0 kv)
    qed
  next
    case (Suc j)
    with Cons.prems(4) have j: "j < length rest" by simp
    then have "rest ! j \<in> set rest" by simp
    with k0 have ne: "fst (rest ! j) \<noteq> k0" by auto
    have ids: "memo \<union> param_ids [(k0, v0)] \<union> param_ids (take j rest)
        = memo \<union> param_ids (take (Suc j) (kv # rest))"
      using param_ids_Cons [of "(k0, v0)" "take j rest"] by (auto simp: kv)
    from Cons.IH [OF run1 dist tab1 j] fr1 [OF ne] show ?thesis
      unfolding ids by (simp add: Suc)
  qed
qed

text \<open>The visit of a module object that the traversal reaches once.\<close>

lemma shard_modules_visit:
  assumes run: "shard_modules env pl r pg nm st = (Inr u, st')"
    and once: "filter (\<lambda>pa. snd pa = a) nm = [(p, a)]"
  shows "\<exists>st1 st2 u2. heap st1 a = heap st a \<and>
           shard_parameters env pl r pg p a (map fst (parameters (heap st a))) {} st1
             = (Inr u2, st2) \<and>
           heap st' a = heap (install_hooks pl p a st2) a"
proof -
  from once obtain pre post where nm: "nm = pre @ (p, a) # post"
    and pre: "\<forall>x\<in>set pre. snd x \<noteq> a" and post: "filter (\<lambda>pa. snd pa = a) post = []"
    by (auto simp: filter_eq_Cons_iff)
  from post have post': "a \<notin> snd ` set post"
    by (auto simp: filter_empty_conv)
  from pre have pre': "a \<notin> snd ` set pre" by auto
  obtain r1 st1 where r1: "shard_modules env pl r pg pre st = (r1, st1)"
    by (cases "shard_modules env pl r pg pre st")
  from shard_modules_other [OF r1 pre'] have h1: "heap st1 a = heap st a" .
  from run r1 obtain u1 where u1: "r1 = Inr u1"
    by (cases r1) (auto simp: nm shard_modules_append)
  with run r1 have run2: "shard_modules env pl r pg ((p, a) # post) st1 = (Inr u, st')"
    by (simp add: nm shard_modules_append)
  obtain r2 st2 where r2:
    "shard_parameters env pl r pg p a (map fst (parameters (heap st a))) {} st1 = (r2, st2)"
    by (cases "shard_parameters env pl r pg p a (map fst (parameters (heap st a))) {} st1")
  from run2 r2 h1 obtain u2 where u2: "r2 = Inr u2"
    by (cases r2) (auto simp: Let_def)
  with run2 r2 h1
  have run3: "shard_modules env pl r pg post (install_hooks pl p a st2) = (Inr u, st')"
    by (simp add: Let_def)
  from shard_modules_other [OF run3 post'] h1 r2 u2 show ?thesis by blast
qed

subsection \<open>The plan application engine\<close>

lemma run_forward_hooks_append:
  "run_forward_hooks env (xs @ ys) result =
     (case run_forward_hooks env xs result of
        Inl e \<Rightarrow> Inl e
      | Inr out \<Rightarrow> run_forward_hooks env ys out)"
  by (induction xs arbitrary: result) (auto split: sum.splits)

lemma param_ids_mem: "(k, Some (addr, t)) \<in> set ps \<Longrightarrow> addr \<in> param_ids ps"
  by (induction ps rule: param_ids.induct) auto

text \<open>
  What a run of \<open>shard_module\<close> that returns has done to the key at position \<open>i\<close> of a
  module object that the traversal reaches once, at the path \<open>p\<close>.
\<close>

lemma shard_module_key:
  assumes run: "shard_module env module pl r pg st = (Inr u, st')"
    and once: "filter (\<lambda>pa. snd pa = a) (named_modules [] module) = [(p, a)]"
    and dist: "distinct (map fst (parameters (heap st a)))"
    and i: "i < length (parameters (heap st a))"
    and kv: "parameters (heap st a) ! i = (k, v)"
  shows "if \<exists>addr t spec. v = Some (addr, t) \<and>
              addr \<notin> param_ids (take i (parameters (heap st a))) \<and>
              plan pl (qualified_name p k) = Some spec
         then map_of (parameters (heap st' a)) k = None \<and>
              (\<exists>sh. sharding_spec sh = the (plan pl (qualified_name p k)) \<and>
                 map_of (attributes (heap st' a)) k = Some (ShardedTensor sh))
         else map_of (parameters (heap st' a)) k = Some v \<and>
              map_of (attributes (heap st' a)) k = map_of (attributes (heap st a)) k"
proof -
  let ?ps = "parameters (heap st a)"
  from run have "shard_modules env pl r pg (named_modules [] module) st = (Inr u, st')"
    by (simp add: shard_module_def)
  from shard_modules_visit [OF this once] obtain st1 st2 u2 where
    h1: "heap st1 a = heap st a" and
    loop: "shard_parameters env pl r pg p a (map fst ?ps) {} st1 = (Inr u2, st2)" and
    h2: "heap st' a = heap (install_hooks pl p a st2) a"
    by blast
  have tab: "\<forall>kv\<in>set ?ps. map_of (parameters (heap st1 a)) (fst kv) = Some (snd kv)"
    using dist by (simp add: h1)
  have eq: "parameters (heap st' a) = parameters (heap st2 a)"
    "attributes (heap st' a) = attributes (heap st2 a)"
    by (simp_all add: h2 install_hooks_frame)
  from shard_parameters_post [OF loop dist tab i] show ?thesis
    by (simp only: kv fst_conv snd_conv eq h1 Un_empty_left)
qed

text \<open>
  Claim C5, as stated, has every parameter whose qualified name is a key of the plan
  sharded. It is not so for a parameter object that the module also holds under an
  earlier name: \<^verbatim>\<open>w2\<close> is in the plan, the run returns, and \<^verbatim>\<open>w2\<close> is still the dense
  parameter; nothing was sharded (lines 269-270 skip it).
\<close>

theorem shard_module_selects_counterexample:
  "plan (plan_of [''w2'' \<mapsto> chunk_spec]) ''w2'' = Some chunk_spec \<and>
   fst (shard_module (example_env [(0, chunk_spec), (0, chunk_spec)]) tied_tree
          (plan_of [''w2'' \<mapsto> chunk_spec]) 0 None example_state) = Inr () \<and>
   getattr (heap (snd (shard_module (example_env [(0, chunk_spec), (0, chunk_spec)]) tied_tree
          (plan_of [''w2'' \<mapsto> chunk_spec]) 0 None example_state)) 2) ''w2''
     = Inr (Parameter 7 example_tensor) \<and>
   shard_calls (snd (shard_module (example_env [(0, chunk_spec), (0, chunk_spec)]) tied_tree
          (plan_of [''w2'' \<mapsto> chunk_spec]) 0 None example_state)) = []"
  by (simp add: example_defs run_defs module_defs)

text \<open>
  Claim C5, amended. Let \<open>shard_module\<close> return, and let the traversal reach the module
  object \<open>a\<close> once, at the path \<open>p\<close>, after the modules \<open>pre\<close>. A key \<open>k\<close> of the parameter
  table of \<open>a\<close> whose qualified name is a key of the plan is replaced by a sharded value
  of the specification that the plan gives for it, when it holds a parameter object (not
  \<^verbatim>\<open>None\<close>) that the traversal has not seen before: neither an earlier key of \<open>a\<close> nor an
  earlier module holds it. A key whose qualified name is no key of the plan, or which
  holds \<^verbatim>\<open>None\<close>, or whose parameter object an earlier key of \<open>a\<close> holds, keeps its entry
  of the parameter table, and the attribute of that name is as before.
\<close>

theorem shard_module_selects:
  assumes "shard_module env module pl r pg st = (Inr u, st')"
    and "named_modules [] module = pre @ (p, a) # post"
    and "a \<notin> snd ` set pre" and "a \<notin> snd ` set post"
    and "distinct (map fst (parameters (heap st a)))"
    and "i < length (parameters (heap st a))"
    and "parameters (heap st a) ! i = (k, v)"
  shows "(\<forall>addr t spec.
            v = Some (addr, t) \<and>
            addr \<notin> param_ids (take i (parameters (heap st a))) \<and>
            (\<forall>b\<in>snd ` set pre. addr \<notin> param_ids (parameters (heap st b))) \<and>
            plan pl (qualified_name p k) = Some spec \<longrightarrow>
            map_of (parameters (heap st' a)) k = None \<and>
            (\<exists>sh. sharding_spec sh = spec \<and>
               map_of (attributes (heap st' a)) k = Some (ShardedTensor sh))) \<and>
         (plan pl (qualified_name p k) = None \<or> v = None \<or>
          (\<exists>addr t. v = Some (addr, t) \<and>
             addr \<in> param_ids (take i (parameters (heap st a)))) \<longrightarrow>
            map_of (parameters (heap st' a)) k = Some v \<and>
            map_of (attributes (heap st' a)) k = map_of (attributes (heap st a)) k)"
proof -
  have "filter (\<lambda>pa. snd pa = a) pre = []" and "filter (\<lambda>pa. snd pa = a) post = []"
    using assms(3,4) by (auto simp: filter_empty_conv)
  then have once: "filter (\<lambda>pa. snd pa = a) (named_modules [] module) = [(p, a)]"
    by (simp add: assms(2))
  note key = shard_module_key [OF assms(1) once assms(5-7)]
  show ?thesis
  proof (intro conjI allI impI)
    fix addr t spec
    assume sel: "v = Some (addr, t) \<and>
      addr \<notin> param_ids (take i (parameters (heap st a))) \<and>
      (\<forall>b\<in>snd ` set pre. addr \<notin> param_ids (parameters (heap st b))) \<and>
      plan pl (qualified_name p k) = Some spec"
    with key show "map_of (parameters (heap st' a)) k = None"
      by auto
    from sel key show "\<exists>sh. sharding_spec sh = spec \<and>
        map_of (attributes (heap st' a)) k = Some (ShardedTensor sh)"
      by auto
  next
    assume skip: "plan pl (qualified_name p k) = None \<or> v = None \<or>
      (\<exists>addr t. v = Some (addr, t) \<and> addr \<in> param_ids (take i (parameters (heap st a))))"
    then have no: "\<not> (\<exists>addr t spec. v = Some (addr, t) \<and>
        addr \<notin> param_ids (take i (parameters (heap st a))) \<and>
        plan pl (qualified_name p k) = Some spec)"
      by auto
    from key no show "map_of (parameters (heap st' a)) k = Some v"
      by (simp only: if_False)
    from key no show "map_of (attributes (heap st' a)) k = map_of (attributes (heap st a)) k"
      by (simp only: if_False)
  qed
qed

theorem shard_module_selects_witness:
  "(\<exists>sh. sharding_spec sh = chunk_spec \<and>
      map_of (attributes (heap (snd (shard_module (example_env [(0, chunk_spec), (0, chunk_spec)])
        example_tree example_plan 0 None example_state)) 1)) ''weight''
      = Some (ShardedTensor sh)) \<and>
   map_of (parameters (heap (snd (shard_module (example_env [(0, chunk_spec), (0, chunk_spec)])
        example_tree example_plan 0 None example_state)) 1)) ''bias''
     = Some (Some (2, \<lparr>shape = [4], contiguous = True, storage = 1\<rparr>))"
proof -
  let ?run = "shard_module (example_env [(0, chunk_spec), (0, chunk_spec)]) example_tree
      example_plan 0 None example_state"
  have run: "?run = (Inr (), snd ?run)"
    by (simp add: example_defs run_defs module_defs)
  have nm: "named_modules [] example_tree = [([], 0)] @ (''linear'', 1) # []"
    by (simp add: example_defs module_defs)
  have once: "1 \<notin> snd ` set [([] :: string, 0 :: nat)]" "1 \<notin> snd ` set ([] :: (string \<times> nat) list)"
    by simp_all
  have dist: "distinct (map fst (parameters (heap example_state 1)))"
    by (simp add: example_defs)
  have w: "0 < length (parameters (heap example_state 1))"
    "parameters (heap example_state 1) ! 0 = (''weight'', Some (1, example_tensor))"
    by (simp_all add: example_defs)
  have b: "1 < length (parameters (heap example_state 1))"
    "parameters (heap example_state 1) ! 1
       = (''bias'', Some (2, \<lparr>shape = [4], contiguous = True, storage = 1\<rparr>))"
    by (simp_all add: example_defs)
  have fresh: "1 \<notin> param_ids (take 0 (parameters (heap example_state 1)))"
    "\<forall>b\<in>snd ` set [([] :: string, 0 :: nat)]. 1 \<notin> param_ids (parameters (heap example_state b))"
    by (simp_all add: example_defs)
  have pw: "plan example_plan (qualified_name ''linear'' ''weight'') = Some chunk_spec"
    and pb: "plan example_plan (qualified_name ''linear'' ''bias'') = None"
    by (simp_all add: example_defs module_defs)
  from shard_module_selects [OF run nm once dist w] fresh pw
  have "\<exists>sh. sharding_spec sh = chunk_spec \<and>
      map_of (attributes (heap (snd ?run) 1)) ''weight'' = Some (ShardedTensor sh)"
    by blast
  moreover from shard_module_selects [OF run nm once dist b] pb
  have "map_of (parameters (heap (snd ?run) 1)) ''bias''
      = Some (Some (2, \<lparr>shape = [4], contiguous = True, storage = 1\<rparr>))"
    by blast
  ultimately show ?thesis by simp
qed

text \<open>
  Claim C1, as stated, has every later reference to a parameter object that was sharded
  point at the sharded value. It does not: \<^verbatim>\<open>w1\<close> and \<^verbatim>\<open>w2\<close> hold the same parameter
  object, \<^verbatim>\<open>w1\<close> is sharded, and \<^verbatim>\<open>w2\<close> still holds the dense parameter.
\<close>

theorem shard_module_dedup_counterexample:
  "fst (shard_module (example_env [(0, chunk_spec), (0, chunk_spec)]) tied_tree
          (plan_of [''w1'' \<mapsto> chunk_spec]) 0 None example_state) = Inr () \<and>
   getattr (heap (snd (shard_module (example_env [(0, chunk_spec), (0, chunk_spec)]) tied_tree
          (plan_of [''w1'' \<mapsto> chunk_spec]) 0 None example_state)) 2) ''w1''
     = Inr (ShardedTensor \<lparr>sharding_spec = chunk_spec,
          local_shard = example_tensor\<lparr>storage := 1\<rparr>\<rparr>) \<and>
   getattr (heap (snd (shard_module (example_env [(0, chunk_spec), (0, chunk_spec)]) tied_tree
          (plan_of [''w1'' \<mapsto> chunk_spec]) 0 None example_state)) 2) ''w2''
     = Inr (Parameter 7 example_tensor)"
  by (simp add: example_defs run_defs module_defs)

text \<open>
  The \<^verbatim>\<open>memo\<close> set starts empty at each module (line 263), so a parameter object that two
  modules hold is sharded at both.
\<close>

lemma shard_module_memo_per_module:
  "named_modules [] tied_tree = [([], 2), (''c'', 3)] \<and>
   getattr (heap example_state 2) ''w1'' = Inr (Parameter 7 example_tensor) \<and>
   getattr (heap example_state 3) ''w'' = Inr (Parameter 7 example_tensor) \<and>
   shard_calls (snd (shard_module (example_env [(0, chunk_spec), (0, chunk_spec)]) tied_tree
          (plan_of [''w1'' \<mapsto> chunk_spec, ''c.w'' \<mapsto> chunk_spec]) 0 None example_state))
     = [(chunk_spec, example_tensor, 0, None), (chunk_spec, example_tensor, 0, None)]"
  by (simp add: example_defs run_defs module_defs)

text \<open>
  Claim C1, amended. Let \<open>shard_module\<close> return, and let the traversal reach the module
  object \<open>a\<close> once, at the path \<open>p\<close>. When \<open>a\<close> holds one parameter object under the keys
  \<open>k1\<close> and, later, \<open>k2\<close>, and under no key before \<open>k1\<close>, then \<open>k2\<close> is skipped: it keeps the
  dense parameter object, whatever the plan says of it. The object is sharded at \<open>k1\<close>
  when the qualified name of \<open>k1\<close> is a key of the plan, and not at all otherwise.
\<close>

theorem shard_module_dedup_in_module:
  assumes "shard_module env module pl r pg st = (Inr u, st')"
    and "filter (\<lambda>pa. snd pa = a) (named_modules [] module) = [(p, a)]"
    and "distinct (map fst (parameters (heap st a)))"
    and "j < i" and "i < length (parameters (heap st a))"
    and "parameters (heap st a) ! j = (k1, Some (addr, t1))"
    and "parameters (heap st a) ! i = (k2, Some (addr, t2))"
    and "addr \<notin> param_ids (take j (parameters (heap st a)))"
  shows "map_of (parameters (heap st' a)) k2 = Some (Some (addr, t2)) \<and>
         map_of (attributes (heap st' a)) k2 = map_of (attributes (heap st a)) k2 \<and>
         (case plan pl (qualified_name p k1) of
            Some spec \<Rightarrow>
              map_of (parameters (heap st' a)) k1 = None \<and>
              (\<exists>sh. sharding_spec sh = spec \<and>
                 map_of (attributes (heap st' a)) k1 = Some (ShardedTensor sh))
          | None \<Rightarrow> map_of (parameters (heap st' a)) k1 = Some (Some (addr, t1)))"
proof -
  let ?ps = "parameters (heap st a)"
  from assms(4,5) have j: "j < length ?ps" by simp
  have "?ps ! j \<in> set (take i ?ps)"
    using assms(4,5) by (auto simp: in_set_conv_nth intro!: exI [of _ j])
  with assms(6) have seen: "addr \<in> param_ids (take i ?ps)"
    by (auto intro: param_ids_mem)
  from shard_module_key [OF assms(1-3) assms(5) assms(7)] seen
  have later: "map_of (parameters (heap st' a)) k2 = Some (Some (addr, t2)) \<and>
      map_of (attributes (heap st' a)) k2 = map_of (attributes (heap st a)) k2"
    by simp
  from shard_module_key [OF assms(1-3) j assms(6)] assms(8)
  have "case plan pl (qualified_name p k1) of
      Some spec \<Rightarrow>
        map_of (parameters (heap st' a)) k1 = None \<and>
        (\<exists>sh. sharding_spec sh = spec \<and>
           map_of (attributes (heap st' a)) k1 = Some (ShardedTensor sh))
    | None \<Rightarrow> map_of (parameters (heap st' a)) k1 = Some (Some (addr, t1))"
    by (cases "plan pl (qualified_name p k1)") simp_all
  with later show ?thesis by simp
qed

theorem shard_module_dedup_in_module_witness:
  "map_of (parameters (heap (snd (shard_module (example_env [(0, chunk_spec), (0, chunk_spec)])
        tied_tree (plan_of [''w1'' \<mapsto> chunk_spec, ''w2'' \<mapsto> chunk_spec]) 0 None
        example_state)) 2)) ''w2''
     = Some (Some (7, example_tensor)) \<and>
   map_of (parameters (heap (snd (shard_module (example_env [(0, chunk_spec), (0, chunk_spec)])
        tied_tree (plan_of [''w1'' \<mapsto> chunk_spec, ''w2'' \<mapsto> chunk_spec]) 0 None
        example_state)) 2)) ''w1''
     = None"
proof -
  let ?run = "shard_module (example_env [(0, chunk_spec), (0, chunk_spec)]) tied_tree
      (plan_of [''w1'' \<mapsto> chunk_spec, ''w2'' \<mapsto> chunk_spec]) 0 None example_state"
  have run: "?run = (Inr (), snd ?run)"
    by (simp add: example_defs run_defs module_defs)
  have once: "filter (\<lambda>pa. snd pa = 2) (named_modules [] tied_tree) = [([], 2)]"
    by (simp add: example_defs module_defs)
  have dist: "distinct (map fst (parameters (heap example_state 2)))"
    by (simp add: example_defs)
  have ji: "(0::nat) < 1" "1 < length (parameters (heap example_state 2))"
    by (simp_all add: example_defs)
  have w1: "parameters (heap example_state 2) ! 0 = (''w1'', Some (7, example_tensor))"
    and w2: "parameters (heap example_state 2) ! 1 = (''w2'', Some (7, example_tensor))"
    by (simp_all add: example_defs)
  have first: "7 \<notin> param_ids (take 0 (parameters (heap example_state 2)))"
    by simp
  have pw: "plan (plan_of [''w1'' \<mapsto> chunk_spec, ''w2'' \<mapsto> chunk_spec]) (qualified_name [] ''w1'')
      = Some chunk_spec"
    by (simp add: example_defs module_defs)
  from shard_module_dedup_in_module [OF run once dist ji w1 w2 first] pw
  show ?thesis by simp
qed

text \<open>
  Claim C7. Let \<open>shard_module\<close> return, and let the traversal reach the module object \<open>a\<close>
  once, at a path that is both a key of the resharding mapping and a member of the
  collapse set. Then the hooks of \<open>a\<close> are the ones it had, followed by the reshard hook
  and then the collapse hook. In a forward computation, when the old hooks hand on a
  sharded or partial value, it is resharded to the target specification, and the result
  is the local shard of the resharded value, without the split dimension of the target
  specification when its size is 1; when resharding raises, so does the computation. Any
  other value is handed on as it is.
\<close>

theorem shard_module_hook_order:
  assumes "shard_module env module pl r pg st = (Inr u, st')"
    and "filter (\<lambda>pa. snd pa = a) (named_modules [] module) = [(p, a)]"
    and "output_plan pl = Some op" and "op p = Some rspec"
    and "return_local_tensor pl = Some names" and "p \<in> set names"
  shows "forward_hooks (heap st' a)
           = forward_hooks (heap st a) @ [ReshardOutput rspec, CollectLocalShard] \<and>
         (\<forall>e. run_forward_hooks env (forward_hooks (heap st a)) result = Inl e \<longrightarrow>
            run_forward_hooks env (forward_hooks (heap st' a)) result = Inl e) \<and>
         (\<forall>out0. run_forward_hooks env (forward_hooks (heap st a)) result = Inr out0 \<longrightarrow>
            run_forward_hooks env (forward_hooks (heap st' a)) result
              = (if (\<exists>s. out0 = ShardedTensor s) \<or> (\<exists>n. out0 = PartialTensor n) then
                   (case reshard_local env out0 rspec of
                      Inl e \<Rightarrow> Inl e
                    | Inr l \<Rightarrow>
                        (case rspec of
                           OtherShardingSpec c \<Rightarrow> Inr (Tensor l)
                         | ChunkShardingSpec d ps \<Rightarrow>
                             (let n = int (length (shape l));
                                  j = (if d < 0 then d + n else d)
                              in if 0 \<le> j \<and> j < n then
                                   Inr (Tensor
                                     (if shape l ! nat j = 1
                                      then l\<lparr>shape := take (nat j) (shape l) @
                                                       drop (Suc (nat j)) (shape l)\<rparr>
                                      else l))
                                 else Inl IndexError)))
                 else Inr out0))"
proof -
  from assms(1) have "shard_modules env pl r pg (named_modules [] module) st = (Inr u, st')"
    by (simp add: shard_module_def)
  from shard_modules_visit [OF this assms(2)] obtain st1 st2 u2 where
    h1: "heap st1 a = heap st a" and
    loop: "shard_parameters env pl r pg p a (map fst (parameters (heap st a))) {} st1
       = (Inr u2, st2)" and
    h2: "heap st' a = heap (install_hooks pl p a st2) a"
    by blast
  from shard_parameters_frame [OF loop, where x = a]
  have "forward_hooks (heap st2 a) = forward_hooks (heap st a)"
    by (simp add: h1)
  with install_hooks_both [OF assms(3-6), of a st2]
  have hooks: "forward_hooks (heap st' a)
      = forward_hooks (heap st a) @ [ReshardOutput rspec, CollectLocalShard]"
    by (simp add: h2)
  have two: "run_forward_hooks env [ReshardOutput rspec, CollectLocalShard] out0
      = (if (\<exists>s. out0 = ShardedTensor s) \<or> (\<exists>n. out0 = PartialTensor n) then
           (case reshard_local env out0 rspec of
              Inl e \<Rightarrow> Inl e
            | Inr l \<Rightarrow>
                (case rspec of
                   OtherShardingSpec c \<Rightarrow> Inr (Tensor l)
                 | ChunkShardingSpec d ps \<Rightarrow>
                     (let n = int (length (shape l));
                          j = (if d < 0 then d + n else d)
                      in if 0 \<le> j \<and> j < n then
                           Inr (Tensor
                             (if shape l ! nat j = 1
                              then l\<lparr>shape := take (nat j) (shape l) @
                                               drop (Suc (nat j)) (shape l)\<rparr>
                              else l))
                         else Inl IndexError)))
         else Inr out0)" for out0
  proof (cases out0)
    case (ShardedTensor s)
    then show ?thesis
      by (simp add: reshard_hook_func_def reshard_def collect_hook_func_def tensor_size_def
          squeeze_def Let_def split: sum.splits sharding_spec.splits)
  next
    case (PartialTensor n)
    then show ?thesis
      by (simp add: reshard_hook_func_def reshard_def collect_hook_func_def tensor_size_def
          squeeze_def Let_def split: sum.splits sharding_spec.splits)
  qed (simp_all add: reshard_hook_func_def collect_hook_func_def)
  show ?thesis
    unfolding hooks run_forward_hooks_append
    by (intro conjI allI impI) (simp_all only: two sum.case refl)
qed

theorem shard_module_hook_order_witness:
  "forward_hooks (heap (snd (shard_module (example_env [(0, chunk_spec), (0, chunk_spec)])
        example_tree example_plan 0 None example_state)) 1)
     = [ReshardOutput (ChunkShardingSpec 1 [''rank:0'', ''rank:1'']), CollectLocalShard] \<and>
   run_forward_hooks (example_env [(0, chunk_spec), (0, chunk_spec)])
      (forward_hooks (heap (snd (shard_module (example_env [(0, chunk_spec), (0, chunk_spec)])
        example_tree example_plan 0 None example_state)) 1))
      (ShardedTensor \<lparr>sharding_spec = chunk_spec,
         local_shard = \<lparr>shape = [1, 4], contiguous = True, storage = 5\<rparr>\<rparr>)
     = Inr (Tensor \<lparr>shape = [4], contiguous = True, storage = 15\<rparr>)"
proof -
  let ?E = "example_env [(0, chunk_spec), (0, chunk_spec)]"
  let ?run = "shard_module ?E example_tree example_plan 0 None example_state"
  let ?out = "ShardedTensor \<lparr>sharding_spec = chunk_spec,
      local_shard = \<lparr>shape = [1, 4], contiguous = True, storage = 5\<rparr>\<rparr>"
  have run: "?run = (Inr (), snd ?run)"
    by (simp add: example_defs run_defs module_defs)
  have once: "filter (\<lambda>pa. snd pa = 1) (named_modules [] example_tree) = [(''linear'', 1)]"
    by (simp add: example_defs module_defs)
  have op: "output_plan example_plan
      = Some [''linear'' \<mapsto> ChunkShardingSpec 1 [''rank:0'', ''rank:1'']]"
    "[''linear'' \<mapsto> ChunkShardingSpec 1 [''rank:0'', ''rank:1'']] ''linear''
      = Some (ChunkShardingSpec 1 [''rank:0'', ''rank:1''])"
    "return_local_tensor example_plan = Some [''linear'']" "''linear'' \<in> set [''linear'']"
    by (simp_all add: example_defs)
  have old: "run_forward_hooks ?E (forward_hooks (heap example_state 1)) ?out = Inr ?out"
    "forward_hooks (heap example_state 1) = []"
    by (simp_all add: example_defs)
  have re: "reshard_local ?E ?out (ChunkShardingSpec 1 [''rank:0'', ''rank:1''])
      = Inr \<lparr>shape = [4, 1], contiguous = True, storage = 15\<rparr>"
    by (simp add: example_env_def)
  note order = shard_module_hook_order [OF run once op, where result = ?out]
  have "forward_hooks (heap (snd ?run) 1)
      = [ReshardOutput (ChunkShardingSpec 1 [''rank:0'', ''rank:1'']), CollectLocalShard]"
    using order old(2) by simp
  moreover have "run_forward_hooks ?E (forward_hooks (heap (snd ?run) 1)) ?out
      = Inr (Tensor \<lparr>shape = [4], contiguous = True, storage = 15\<rparr>)"
    using re order [THEN conjunct2, THEN conjunct2, rule_format, OF old(1)]
    by simp
  ultimately show ?thesis by simp
qed

end
